theory Spec2Isabelle
  imports Main "HOL-Library.Word"
begin

unbundle bit_operations_syntax

section \<open>Byte buffers, errors and the runtime the code calls into\<close>

text \<open>
  A Node \<open>Buffer\<close> is a sequence of bytes. A thrown exception is a value of \<open>err\<close>:
  \<open>Error msg\<close> is \<open>new Error(msg)\<close> of the repository's own code, \<open>TypeError\<close> is the
  engine's exception for reading a property of \<open>undefined\<close> or for
  \<open>Buffer.from(undefined, ...)\<close> and \<open>Buffer.concat\<close> of an \<open>undefined\<close> entry,
  \<open>SyntaxError\<close> is what \<open>JSON.parse\<close> throws, and \<open>CryptoError\<close> is what the crypto
  library throws (a rejected point, a failed tag).
\<close>

type_synonym Buffer = "8 word list"

datatype err = Error string | TypeError | SyntaxError | CryptoError

section \<open>crypto-utils: HKDF, SecureRandom, constantTimeCompare, createContextInfo\<close>

text \<open>
  \<open>createHmac('sha256', key).update(a).update(b).digest()\<close> is HMAC-SHA-256 of the
  concatenation \<open>a @ b\<close> under \<open>key\<close>. The hash is the library's, so the functions below
  take it as the parameter \<open>hmac key data\<close>.
\<close>

definition HKDF_extract :: "(Buffer \<Rightarrow> Buffer \<Rightarrow> Buffer) \<Rightarrow> Buffer \<Rightarrow> Buffer \<Rightarrow> Buffer" where
  "HKDF_extract hmac salt ikm = hmac salt ikm"

text \<open>
  The \<open>for (let i = 1; i <= n; i++)\<close> loop of \<open>HKDF.expand\<close>: \<open>t\<close> is the previous block,
  \<open>result\<close> the blocks pushed so far. \<open>Buffer.from([i])\<close> is the one byte \<open>i mod 256\<close>.
\<close>

function expand_loop ::
  "(Buffer \<Rightarrow> Buffer \<Rightarrow> Buffer) \<Rightarrow> Buffer \<Rightarrow> Buffer \<Rightarrow> nat \<Rightarrow> nat \<Rightarrow> Buffer \<Rightarrow> Buffer list
     \<Rightarrow> Buffer list" where
  "expand_loop hmac prk info n i t result =
     (if i \<le> n
      then (let t' = hmac prk (t @ info @ [of_nat i])
            in expand_loop hmac prk info n (Suc i) t' (result @ [t']))
      else result)"
  by pat_completeness auto
termination
  by (relation "measure (\<lambda>(hmac, prk, info, n, i, t, result). Suc n - i)") auto

declare expand_loop.simps [simp del]

text \<open>
  \<open>length\<close> is a JavaScript number holding an integer; \<open>Math.ceil(length / 32)\<close> is then
  \<open>(length + 31) div 32\<close> with the flooring \<open>div\<close> of \<open>int\<close>. For \<open>length \<le> 0\<close> the loop
  does not run and \<open>subarray(0, length)\<close> of the empty buffer is empty.
\<close>

definition HKDF_expand :: "(Buffer \<Rightarrow> Buffer \<Rightarrow> Buffer) \<Rightarrow> Buffer \<Rightarrow> Buffer \<Rightarrow> int \<Rightarrow> err + Buffer" where
  "HKDF_expand hmac prk info len =
     (let hashLen = 32;
          n = (len + (hashLen - 1)) div hashLen
      in if n > 255 then Inl (Error ''HKDF: requested length too large'')
         else Inr (take (nat len) (concat (expand_loop hmac prk info (nat n) 1 [] []))))"

definition HKDF_derive ::
  "(Buffer \<Rightarrow> Buffer \<Rightarrow> Buffer) \<Rightarrow> Buffer \<Rightarrow> Buffer \<Rightarrow> Buffer \<Rightarrow> int \<Rightarrow> err + Buffer" where
  "HKDF_derive hmac ikm salt info len =
     (let prk = HKDF_extract hmac salt ikm in HKDF_expand hmac prk info len)"

text \<open>
  The expand step as RFC 5869 and the specification word it, to compare the loop with:
  \<open>T(0)\<close> is empty, \<open>T(i) = HMAC(PRK, T(i-1) || info || byte(i))\<close>, and the output is the
  first \<open>L\<close> bytes of \<open>T(1) || ... || T(n)\<close>.
\<close>

fun rfc5869_T :: "(Buffer \<Rightarrow> Buffer \<Rightarrow> Buffer) \<Rightarrow> Buffer \<Rightarrow> Buffer \<Rightarrow> nat \<Rightarrow> Buffer" where
  "rfc5869_T hmac prk info 0 = []"
| "rfc5869_T hmac prk info (Suc i) =
     hmac prk (rfc5869_T hmac prk info i @ info @ [of_nat (Suc i)])"

definition rfc5869_okm :: "(Buffer \<Rightarrow> Buffer \<Rightarrow> Buffer) \<Rightarrow> Buffer \<Rightarrow> Buffer \<Rightarrow> nat \<Rightarrow> nat \<Rightarrow> Buffer" where
  "rfc5869_okm hmac prk info n L = take L (concat (map (rfc5869_T hmac prk info) [1..<Suc n]))"

text \<open>
  \<open>SecureRandom.bytes\<close>: \<open>randomBytes\<close> is the operating system's generator as seen by this
  call, mapping the requested length to the buffer it hands back. \<open>Buffer.every\<close> is
  \<open>list_all\<close>, true on the empty buffer.
\<close>

definition SecureRandom_bytes :: "(nat \<Rightarrow> Buffer) \<Rightarrow> nat \<Rightarrow> err + Buffer" where
  "SecureRandom_bytes randomBytes len =
     (let bytes = randomBytes len;
          isAllZeros = list_all (\<lambda>byte. byte = 0) bytes;
          isAllOnes = list_all (\<lambda>byte. byte = 255) bytes
      in if isAllZeros \<or> isAllOnes
         then Inl (Error ''Insufficient entropy detected in random generation'')
         else Inr bytes)"

definition SecureRandom_base64 ::
  "(Buffer \<Rightarrow> string) \<Rightarrow> (nat \<Rightarrow> Buffer) \<Rightarrow> nat \<Rightarrow> err + string" where
  "SecureRandom_base64 toBase64 randomBytes len =
     (case SecureRandom_bytes randomBytes len of
        Inl e \<Rightarrow> Inl e
      | Inr bytes \<Rightarrow> Inr (toBase64 bytes))"

text \<open>
  \<open>constantTimeCompare\<close>: the accumulator \<open>result |= a[i] ^ b[i]\<close> only ever holds the OR of
  XORs of two bytes, so it is a byte itself. The loop runs over the indices of \<open>a\<close>; it
  is reached only when both lengths agree.
\<close>

fun compare_loop :: "Buffer \<Rightarrow> Buffer \<Rightarrow> 8 word \<Rightarrow> 8 word" where
  "compare_loop (x # xs) (y # ys) result = compare_loop xs ys (result OR (x XOR y))"
| "compare_loop _ _ result = result"

definition constantTimeCompare :: "Buffer \<Rightarrow> Buffer \<Rightarrow> bool" where
  "constantTimeCompare a b =
     (if length a \<noteq> length b then False else compare_loop a b 0 = 0)"

text \<open>
  \<open>createContextInfo(context, version = 1)\<close>: a HOL \<open>string\<close> is a byte string, so the
  UTF-8 bytes of the ASCII labels are the characters themselves; \<open>Buffer.from([n])\<close>
  keeps \<open>n mod 256\<close>.
\<close>

definition createContextInfo :: "string \<Rightarrow> nat \<Rightarrow> Buffer" where
  "createContextInfo context version =
     (let contextBuffer = map of_char context;
          versionBuffer = [of_nat version];
          lengthBuffer = [of_nat (length contextBuffer)]
      in lengthBuffer @ contextBuffer @ versionBuffer)"

section \<open>The runtime: node:crypto, base64 and JSON\<close>

text \<open>
  What the handshake classes call and the repository does not define: HMAC-SHA-256,
  ECDH on P-256 (the key pair is identified with its private key; \<open>rt_computeSecret\<close> is
  \<open>None\<close> where the library throws on the peer's point), the base64 codec of \<open>Buffer\<close>
  (decoding never throws on a string) and JSON (\<open>rt_JSON_parse\<close> is \<open>None\<close> on a
  syntax error).
\<close>

text \<open>
  A handshake message is a JavaScript object read through a fixed set of properties;
  a property that is absent (\<open>undefined\<close>) is \<open>None\<close>.
\<close>

record message =
  m_type :: "string option"
  m_version :: "int option"
  m_sessionId :: "string option"
  m_publicKey :: "string option"
  m_providerNonce :: "string option"
  m_consumerNonce :: "string option"
  m_supportedCiphers :: "string list option"
  m_supportedHashes :: "string list option"
  m_selectedCipher :: "string option"
  m_selectedHash :: "string option"
  m_confirmationMac :: "string option"

definition empty_message :: message where
  "empty_message =
     \<lparr>m_type = None, m_version = None, m_sessionId = None, m_publicKey = None,
      m_providerNonce = None, m_consumerNonce = None, m_supportedCiphers = None,
      m_supportedHashes = None, m_selectedCipher = None, m_selectedHash = None,
      m_confirmationMac = None\<rparr>"

text \<open>
  What \<open>JSON.parse\<close> returns, and what a caller can pass instead of a string: \<open>null\<close>
  (or \<open>undefined\<close>), on which reading any property throws, or a value read through
  its properties. A number, a boolean, a string or an array has none of the properties
  the handlers read, so it reads as an object on which they are all absent.
\<close>

datatype parsed = PNull | PObject message

record runtime =
  rt_hmac :: "Buffer \<Rightarrow> Buffer \<Rightarrow> Buffer"
  rt_getPublicKey :: "Buffer \<Rightarrow> Buffer"
  rt_computeSecret :: "Buffer \<Rightarrow> Buffer \<Rightarrow> Buffer option"
  rt_toBase64 :: "Buffer \<Rightarrow> string"
  rt_fromBase64 :: "string \<Rightarrow> Buffer"
  rt_JSON_parse :: "string \<Rightarrow> parsed option"
  rt_JSON_stringify :: "message \<Rightarrow> string"

text \<open>
  The argument of \<open>handleMessage\<close> and \<open>handleResponse\<close>: a string, an object, or
  \<open>null\<close> (\<open>undefined\<close>). \<open>_normalizeMessage\<close> parses a string and hands anything else
  back as it is.
\<close>

datatype raw = RawString string | RawObject message | RawNull

definition normalizeMessage :: "runtime \<Rightarrow> raw \<Rightarrow> err + parsed" where
  "normalizeMessage rt r =
     (case r of
        RawString str \<Rightarrow>
          (case rt_JSON_parse rt str of
             None \<Rightarrow> Inl (Error ''Invalid message format'')
           | Some data \<Rightarrow> Inr data)
      | RawObject data \<Rightarrow> Inr (PObject data)
      | RawNull \<Rightarrow> Inr PNull)"

section \<open>Derived keys\<close>

text \<open>
  What \<open>getDerivedKeys\<close> returns has the two fields of \<open>EncryptionKeys\<close>; the key bundle
  of the handshake state extends it by the confirmation key.
\<close>

record EncryptionKeys =
  encryptionKey :: Buffer
  authenticationKey :: Buffer

record DerivedKeys = EncryptionKeys +
  confirmationKey :: Buffer

text \<open>\<open>Buffer.fill(0)\<close>: every byte becomes zero, the length stays.\<close>

definition fill0 :: "Buffer \<Rightarrow> Buffer" where
  "fill0 b = map (\<lambda>_. 0) b"

definition fill0_keys :: "DerivedKeys \<Rightarrow> DerivedKeys" where
  "fill0_keys dk =
     \<lparr>encryptionKey = fill0 (encryptionKey dk),
      authenticationKey = fill0 (authenticationKey dk),
      confirmationKey = fill0 (confirmationKey dk)\<rparr>"

text \<open>
  The key schedule as the specification words it, to compare \<open>_deriveKeys\<close> with:
  \<open>salt = initiator_nonce || responder_nonce\<close>,
  \<open>info(label) = [len(label)] || utf8(label) || [version=1]\<close>, and each key is
  \<open>HKDF(shared_secret, salt, info(label), 32)\<close>, one block of the expand step.
\<close>

definition KeySchedule :: "(Buffer \<Rightarrow> Buffer \<Rightarrow> Buffer) \<Rightarrow> Buffer \<Rightarrow> Buffer \<Rightarrow> Buffer \<Rightarrow> DerivedKeys" where
  "KeySchedule hmac shared_secret initiator_nonce responder_nonce =
     (let salt = initiator_nonce @ responder_nonce;
          info = (\<lambda>label. [of_nat (length label)] @ map of_char label @ [1]);
          HKDF = (\<lambda>i. rfc5869_okm hmac (hmac salt shared_secret) i 1 32)
      in \<lparr>encryptionKey = HKDF (info ''SubtylSocket-Encryption''),
          authenticationKey = HKDF (info ''SubtylSocket-Authentication''),
          confirmationKey = HKDF (info ''SubtylSocket-KeyConfirmation'')\<rparr>)"

section \<open>SecureProvider (the Initiator)\<close>

record SecureProvider =
  p_ecdh :: Buffer
  p_sessionId :: string
  p_providerNonce :: Buffer
  p_consumerNonce :: "Buffer option"
  p_sharedSecret :: "Buffer option"
  p_derivedKeys :: "DerivedKeys option"
  p_confirmed :: bool

record ProviderResult =
  pr_type :: string
  pr_confirmed :: bool
  pr_error :: "err option"
  pr_confirmationMac :: "string option"

text \<open>
  The constructor: \<open>privateKey\<close> is what \<open>generateKeys()\<close> drew, \<open>randomBytes\<close> the
  generator behind the two \<open>SecureRandom\<close> calls. A throwing \<open>SecureRandom\<close> call makes
  the constructor throw.
\<close>

definition SecureProvider_new :: "runtime \<Rightarrow> Buffer \<Rightarrow> (nat \<Rightarrow> Buffer) \<Rightarrow> err + SecureProvider" where
  "SecureProvider_new rt privateKey randomBytes =
     (case SecureRandom_base64 (rt_toBase64 rt) randomBytes 16 of
        Inl e \<Rightarrow> Inl e
      | Inr sid \<Rightarrow>
          (case SecureRandom_bytes randomBytes 32 of
             Inl e \<Rightarrow> Inl e
           | Inr nonce \<Rightarrow>
               Inr \<lparr>p_ecdh = privateKey, p_sessionId = sid, p_providerNonce = nonce,
                    p_consumerNonce = None, p_sharedSecret = None, p_derivedKeys = None,
                    p_confirmed = False\<rparr>))"

definition handshake_init_message :: "runtime \<Rightarrow> SecureProvider \<Rightarrow> message" where
  "handshake_init_message rt s =
     empty_message
       \<lparr>m_type := Some ''handshake-init'',
        m_version := Some 1,
        m_sessionId := Some (p_sessionId s),
        m_publicKey := Some (rt_toBase64 rt (rt_getPublicKey rt (p_ecdh s))),
        m_providerNonce := Some (rt_toBase64 rt (p_providerNonce s)),
        m_supportedCiphers := Some [''aes-256-gcm''],
        m_supportedHashes := Some [''sha256'']\<rparr>"

text \<open>\<open>startHandshake\<close> returns the string handed to \<open>socket.send\<close>.\<close>

definition startHandshake :: "runtime \<Rightarrow> SecureProvider \<Rightarrow> string" where
  "startHandshake rt s = rt_JSON_stringify rt (handshake_init_message rt s)"

text \<open>
  \<open>_deriveKeys\<close> assigns \<open>derivedKeys\<close> only after all three derivations returned; a
  \<open>Buffer\<close> is truthy whatever its content, so the guard tests presence.
\<close>

definition provider_deriveKeys :: "runtime \<Rightarrow> SecureProvider \<Rightarrow> err + SecureProvider" where
  "provider_deriveKeys rt s =
     (case (p_sharedSecret s, p_consumerNonce s) of
        (Some sharedSecret, Some consumerNonce) \<Rightarrow>
          (let salt = p_providerNonce s @ consumerNonce;
               encryptionInfo = createContextInfo ''SubtylSocket-Encryption'' 1;
               authInfo = createContextInfo ''SubtylSocket-Authentication'' 1;
               confirmationInfo = createContextInfo ''SubtylSocket-KeyConfirmation'' 1
           in case HKDF_derive (rt_hmac rt) sharedSecret salt encryptionInfo 32 of
                Inl e \<Rightarrow> Inl e
              | Inr ek \<Rightarrow>
                  (case HKDF_derive (rt_hmac rt) sharedSecret salt authInfo 32 of
                     Inl e \<Rightarrow> Inl e
                   | Inr ak \<Rightarrow>
                       (case HKDF_derive (rt_hmac rt) sharedSecret salt confirmationInfo 32 of
                          Inl e \<Rightarrow> Inl e
                        | Inr ck \<Rightarrow>
                            Inr (s\<lparr>p_derivedKeys :=
                                      Some \<lparr>encryptionKey = ek, authenticationKey = ak,
                                            confirmationKey = ck\<rparr>\<rparr>))))
      | _ \<Rightarrow> Inl (Error ''Cannot derive keys without shared secret and nonces''))"

text \<open>
  The private handlers return the state as the call leaves it (an exception keeps the
  assignments made before it) together with the exception or the returned object.
\<close>

definition provider_processHandshakeResponse ::
  "runtime \<Rightarrow> SecureProvider \<Rightarrow> message \<Rightarrow> SecureProvider \<times> (err + ProviderResult)" where
  "provider_processHandshakeResponse rt s data =
     (if m_sessionId data \<noteq> Some (p_sessionId s) then (s, Inl (Error ''Session ID mismatch''))
      else case m_consumerNonce data of
        None \<Rightarrow> (s, Inl TypeError)
      | Some cn \<Rightarrow>
          (let s1 = s\<lparr>p_consumerNonce := Some (rt_fromBase64 rt cn)\<rparr>
           in case m_publicKey data of
                None \<Rightarrow> (s1, Inl TypeError)
              | Some pk \<Rightarrow>
                  (let consumerPublicKey = rt_fromBase64 rt pk
                   in case rt_computeSecret rt (p_ecdh s1) consumerPublicKey of
                        None \<Rightarrow> (s1, Inl CryptoError)
                      | Some secret \<Rightarrow>
                          (let s2 = s1\<lparr>p_sharedSecret := Some secret\<rparr>
                           in case provider_deriveKeys rt s2 of
                                Inl e \<Rightarrow> (s2, Inl e)
                              | Inr s3 \<Rightarrow>
                                  (case (p_consumerNonce s3, p_derivedKeys s3) of
                                     (Some consumerNonce, Some dk) \<Rightarrow>
                                       (let confirmationData =
                                              p_providerNonce s3 @ consumerNonce @
                                              rt_getPublicKey rt (p_ecdh s3) @ consumerPublicKey;
                                            confirmationMac =
                                              rt_hmac rt (confirmationKey dk) confirmationData
                                        in (s3, Inr \<lparr>pr_type = ''send-confirmation'',
                                                     pr_confirmed = False, pr_error = None,
                                                     pr_confirmationMac =
                                                       Some (rt_toBase64 rt confirmationMac)\<rparr>))
                                   | _ \<Rightarrow> (s3, Inl TypeError))))))"

definition provider_processKeyConfirmation ::
  "runtime \<Rightarrow> SecureProvider \<Rightarrow> message \<Rightarrow> SecureProvider \<times> (err + ProviderResult)" where
  "provider_processKeyConfirmation rt s data =
     (case m_confirmationMac data of
        None \<Rightarrow> (s, Inl TypeError)
      | Some mac \<Rightarrow>
          (let receivedMac = rt_fromBase64 rt mac
           in case (m_publicKey data, p_consumerNonce s, p_derivedKeys s) of
                (Some pk, Some consumerNonce, Some dk) \<Rightarrow>
                  (let confirmationData =
                         consumerNonce @ p_providerNonce s @ rt_fromBase64 rt pk @
                         rt_getPublicKey rt (p_ecdh s);
                       expectedMac = rt_hmac rt (confirmationKey dk) confirmationData
                   in if constantTimeCompare receivedMac expectedMac
                      then (s\<lparr>p_confirmed := True\<rparr>,
                            Inr \<lparr>pr_type = ''handshake-complete'', pr_confirmed = True,
                                 pr_error = None, pr_confirmationMac = None\<rparr>)
                      else (s, Inl (Error ''Key confirmation failed - potential MITM attack'')))
              | _ \<Rightarrow> (s, Inl TypeError)))"

definition provider_error :: "err \<Rightarrow> ProviderResult" where
  "provider_error e =
     \<lparr>pr_type = ''error'', pr_confirmed = False, pr_error = Some e, pr_confirmationMac = None\<rparr>"

text \<open>
  \<open>handleResponse\<close>: reading \<open>data.type\<close> of \<open>null\<close> throws the engine's TypeError inside
  the \<open>try\<close> block, and the \<open>catch\<close> clause answers with its message.
\<close>

definition handleResponse :: "runtime \<Rightarrow> SecureProvider \<Rightarrow> raw \<Rightarrow> SecureProvider \<times> ProviderResult" where
  "handleResponse rt s msg =
     (case normalizeMessage rt msg of
        Inl e \<Rightarrow> (s, provider_error e)
      | Inr PNull \<Rightarrow> (s, provider_error TypeError)
      | Inr (PObject data) \<Rightarrow>
          if m_type data = Some ''handshake-response''
          then (case provider_processHandshakeResponse rt s data of
                  (s', Inl e) \<Rightarrow> (s', provider_error e)
                | (s', Inr r) \<Rightarrow> (s', r))
          else if m_type data = Some ''key-confirmation''
          then (case provider_processKeyConfirmation rt s data of
                  (s', Inl e) \<Rightarrow> (s', provider_error e)
                | (s', Inr r) \<Rightarrow> (s', r))
          else (s, provider_error (Error ''Unknown message type'')))"

definition provider_getDerivedKeys :: "SecureProvider \<Rightarrow> EncryptionKeys option" where
  "provider_getDerivedKeys s =
     (if \<not> p_confirmed s then None
      else case p_derivedKeys s of
        None \<Rightarrow> None
      | Some dk \<Rightarrow>
          Some \<lparr>encryptionKey = encryptionKey dk, authenticationKey = authenticationKey dk\<rparr>)"

text \<open>
  \<open>destroy\<close> zero-fills the buffers in place and then drops the key bundle. The buffers
  of the bundle stay reachable through an earlier \<open>getDerivedKeys()\<close> result, so next to
  the new state the model returns what \<open>destroy\<close> left in them.
\<close>

definition provider_destroy :: "SecureProvider \<Rightarrow> SecureProvider \<times> DerivedKeys option" where
  "provider_destroy s =
     (let s1 = s\<lparr>p_sharedSecret := map_option fill0 (p_sharedSecret s)\<rparr>;
          wiped = map_option fill0_keys (p_derivedKeys s1);
          s2 = s1\<lparr>p_derivedKeys := None\<rparr>;
          s3 = s2\<lparr>p_providerNonce := fill0 (p_providerNonce s2)\<rparr>;
          s4 = s3\<lparr>p_consumerNonce := map_option fill0 (p_consumerNonce s3)\<rparr>
      in (s4\<lparr>p_confirmed := False\<rparr>, wiped))"

section \<open>SecureConsumer (the Responder)\<close>

record SecureConsumer =
  c_ecdh :: Buffer
  c_sessionId :: "string option"
  c_providerNonce :: "Buffer option"
  c_consumerNonce :: Buffer
  c_sharedSecret :: "Buffer option"
  c_derivedKeys :: "DerivedKeys option"
  c_confirmed :: bool
  c_providerPublicKey :: "Buffer option"

record ConsumerResult =
  cr_type :: string
  cr_response :: "message option"
  cr_confirmed :: bool
  cr_error :: "err option"

definition SecureConsumer_new :: "Buffer \<Rightarrow> (nat \<Rightarrow> Buffer) \<Rightarrow> err + SecureConsumer" where
  "SecureConsumer_new privateKey randomBytes =
     (case SecureRandom_bytes randomBytes 32 of
        Inl e \<Rightarrow> Inl e
      | Inr nonce \<Rightarrow>
          Inr \<lparr>c_ecdh = privateKey, c_sessionId = None, c_providerNonce = None,
               c_consumerNonce = nonce, c_sharedSecret = None, c_derivedKeys = None,
               c_confirmed = False, c_providerPublicKey = None\<rparr>)"

definition consumer_deriveKeys :: "runtime \<Rightarrow> SecureConsumer \<Rightarrow> err + SecureConsumer" where
  "consumer_deriveKeys rt s =
     (case (c_sharedSecret s, c_providerNonce s) of
        (Some sharedSecret, Some providerNonce) \<Rightarrow>
          (let salt = providerNonce @ c_consumerNonce s;
               encryptionInfo = createContextInfo ''SubtylSocket-Encryption'' 1;
               authInfo = createContextInfo ''SubtylSocket-Authentication'' 1;
               confirmationInfo = createContextInfo ''SubtylSocket-KeyConfirmation'' 1
           in case HKDF_derive (rt_hmac rt) sharedSecret salt encryptionInfo 32 of
                Inl e \<Rightarrow> Inl e
              | Inr ek \<Rightarrow>
                  (case HKDF_derive (rt_hmac rt) sharedSecret salt authInfo 32 of
                     Inl e \<Rightarrow> Inl e
                   | Inr ak \<Rightarrow>
                       (case HKDF_derive (rt_hmac rt) sharedSecret salt confirmationInfo 32 of
                          Inl e \<Rightarrow> Inl e
                        | Inr ck \<Rightarrow>
                            Inr (s\<lparr>c_derivedKeys :=
                                      Some \<lparr>encryptionKey = ek, authenticationKey = ak,
                                            confirmationKey = ck\<rparr>\<rparr>))))
      | _ \<Rightarrow> Inl (Error ''Cannot derive keys without shared secret and nonces''))"

text \<open>
  \<open>data.supportedCiphers?.includes(x)\<close> is \<open>undefined\<close>, hence falsy, when the property
  is absent.
\<close>

definition includes_opt :: "string list option \<Rightarrow> string \<Rightarrow> bool" where
  "includes_opt xs x = (case xs of None \<Rightarrow> False | Some l \<Rightarrow> List.member l x)"

definition consumer_processHandshakeInit ::
  "runtime \<Rightarrow> SecureConsumer \<Rightarrow> message \<Rightarrow> SecureConsumer \<times> (err + ConsumerResult)" where
  "consumer_processHandshakeInit rt s data =
     (if m_version data \<noteq> Some 1 then (s, Inl (Error ''Unsupported protocol version''))
      else if \<not> includes_opt (m_supportedCiphers data) ''aes-256-gcm'' \<or>
              \<not> includes_opt (m_supportedHashes data) ''sha256''
      then (s, Inl (Error ''Unsupported cryptographic algorithms''))
      else
        (let s1 = s\<lparr>c_sessionId := m_sessionId data\<rparr>
         in case m_providerNonce data of
              None \<Rightarrow> (s1, Inl TypeError)
            | Some pn \<Rightarrow>
                (let s2 = s1\<lparr>c_providerNonce := Some (rt_fromBase64 rt pn)\<rparr>
                 in case m_publicKey data of
                      None \<Rightarrow> (s2, Inl TypeError)
                    | Some pk \<Rightarrow>
                        (let providerPublicKey = rt_fromBase64 rt pk;
                             s3 = s2\<lparr>c_providerPublicKey := Some providerPublicKey\<rparr>
                         in case rt_computeSecret rt (c_ecdh s3) providerPublicKey of
                              None \<Rightarrow> (s3, Inl CryptoError)
                            | Some secret \<Rightarrow>
                                (let s4 = s3\<lparr>c_sharedSecret := Some secret\<rparr>
                                 in case consumer_deriveKeys rt s4 of
                                      Inl e \<Rightarrow> (s4, Inl e)
                                    | Inr s5 \<Rightarrow>
                                        (let response = empty_message
                                               \<lparr>m_type := Some ''handshake-response'',
                                                m_sessionId := c_sessionId s5,
                                                m_publicKey := Some (rt_toBase64 rt
                                                  (rt_getPublicKey rt (c_ecdh s5))),
                                                m_consumerNonce :=
                                                  Some (rt_toBase64 rt (c_consumerNonce s5)),
                                                m_selectedCipher := Some ''aes-256-gcm'',
                                                m_selectedHash := Some ''sha256''\<rparr>
                                         in (s5, Inr \<lparr>cr_type = ''handshake-response'',
                                                      cr_response = Some response,
                                                      cr_confirmed = False,
                                                      cr_error = None\<rparr>)))))))"

definition consumer_processKeyConfirmationRequest ::
  "runtime \<Rightarrow> SecureConsumer \<Rightarrow> message \<Rightarrow> SecureConsumer \<times> (err + ConsumerResult)" where
  "consumer_processKeyConfirmationRequest rt s data =
     (case m_confirmationMac data of
        None \<Rightarrow> (s, Inl TypeError)
      | Some mac \<Rightarrow>
          (let receivedMac = rt_fromBase64 rt mac
           in case (c_providerNonce s, c_providerPublicKey s, c_derivedKeys s) of
                (Some providerNonce, Some providerPublicKey, Some dk) \<Rightarrow>
                  (let confirmationData =
                         providerNonce @ c_consumerNonce s @ providerPublicKey @
                         rt_getPublicKey rt (c_ecdh s);
                       expectedMac = rt_hmac rt (confirmationKey dk) confirmationData
                   in if \<not> constantTimeCompare receivedMac expectedMac
                      then (s, Inl (Error
                              ''Provider key confirmation failed - potential MITM attack''))
                      else
                        (let ourConfirmationData =
                               c_consumerNonce s @ providerNonce @
                               rt_getPublicKey rt (c_ecdh s) @ providerPublicKey;
                             ourConfirmationMac =
                               rt_hmac rt (confirmationKey dk) ourConfirmationData;
                             s' = s\<lparr>c_confirmed := True\<rparr>;
                             response = empty_message
                               \<lparr>m_type := Some ''key-confirmation'',
                                m_sessionId := c_sessionId s',
                                m_publicKey :=
                                  Some (rt_toBase64 rt (rt_getPublicKey rt (c_ecdh s'))),
                                m_confirmationMac :=
                                  Some (rt_toBase64 rt ourConfirmationMac)\<rparr>
                         in (s', Inr \<lparr>cr_type = ''key-confirmation'',
                                      cr_response = Some response, cr_confirmed = True,
                                      cr_error = None\<rparr>)))
              | _ \<Rightarrow> (s, Inl TypeError)))"

definition consumer_error :: "err \<Rightarrow> ConsumerResult" where
  "consumer_error e =
     \<lparr>cr_type = ''error'', cr_response = None, cr_confirmed = False, cr_error = Some e\<rparr>"

definition handleMessage :: "runtime \<Rightarrow> SecureConsumer \<Rightarrow> raw \<Rightarrow> SecureConsumer \<times> ConsumerResult" where
  "handleMessage rt s msg =
     (case normalizeMessage rt msg of
        Inl e \<Rightarrow> (s, consumer_error e)
      | Inr PNull \<Rightarrow> (s, consumer_error TypeError)
      | Inr (PObject data) \<Rightarrow>
          if m_type data = Some ''handshake-init''
          then (case consumer_processHandshakeInit rt s data of
                  (s', Inl e) \<Rightarrow> (s', consumer_error e)
                | (s', Inr r) \<Rightarrow> (s', r))
          else if m_type data = Some ''key-confirmation-request''
          then (case consumer_processKeyConfirmationRequest rt s data of
                  (s', Inl e) \<Rightarrow> (s', consumer_error e)
                | (s', Inr r) \<Rightarrow> (s', r))
          else (s, consumer_error (Error ''Unknown message type'')))"

definition consumer_getDerivedKeys :: "SecureConsumer \<Rightarrow> EncryptionKeys option" where
  "consumer_getDerivedKeys s =
     (if \<not> c_confirmed s then None
      else case c_derivedKeys s of
        None \<Rightarrow> None
      | Some dk \<Rightarrow>
          Some \<lparr>encryptionKey = encryptionKey dk, authenticationKey = authenticationKey dk\<rparr>)"

definition consumer_destroy :: "SecureConsumer \<Rightarrow> SecureConsumer \<times> DerivedKeys option" where
  "consumer_destroy s =
     (let s1 = s\<lparr>c_sharedSecret := map_option fill0 (c_sharedSecret s)\<rparr>;
          wiped = map_option fill0_keys (c_derivedKeys s1);
          s2 = s1\<lparr>c_derivedKeys := None\<rparr>;
          s3 = s2\<lparr>c_consumerNonce := fill0 (c_consumerNonce s2)\<rparr>;
          s4 = s3\<lparr>c_providerNonce := map_option fill0 (c_providerNonce s3)\<rparr>
      in (s4\<lparr>c_confirmed := False\<rparr>, wiped))"

text \<open>
  The message the owner of the provider assembles from a \<open>send-confirmation\<close> result and
  delivers to the consumer (as the test suite and the example server do).
\<close>

definition key_confirmation_request :: "string option \<Rightarrow> message" where
  "key_confirmation_request mac =
     empty_message\<lparr>m_type := Some ''key-confirmation-request'', m_confirmationMac := mac\<rparr>"

text \<open>
  The four-message run: the init string is delivered to the consumer, each returned
  object is delivered as it is, and the run yields the two final states with the four
  results. A step that returns no message to forward delivers \<open>undefined\<close>.
\<close>

definition deliver :: "message option \<Rightarrow> raw" where
  "deliver m = (case m of None \<Rightarrow> RawNull | Some x \<Rightarrow> RawObject x)"

definition honest_run ::
  "runtime \<Rightarrow> SecureProvider \<Rightarrow> SecureConsumer
     \<Rightarrow> (SecureProvider \<times> SecureConsumer) \<times>
        (ConsumerResult \<times> ProviderResult \<times> ConsumerResult \<times> ProviderResult)" where
  "honest_run rt p0 c0 =
     (let init = startHandshake rt p0;
          (c1, r1) = handleMessage rt c0 (RawString init);
          (p1, r2) = handleResponse rt p0 (deliver (cr_response r1));
          (c2, r3) = handleMessage rt c1
                       (RawObject (key_confirmation_request (pr_confirmationMac r2)));
          (p2, r4) = handleResponse rt p1 (deliver (cr_response r3))
      in ((p2, c2), (r1, r2, r3, r4)))"

section \<open>BaseEncryptionPlugin\<close>

text \<open>
  A parsed JSON value. Numbers are kept as integers (only their being zero is read),
  an object is its list of properties.
\<close>

datatype json =
  JNull | JBool bool | JNum int | JStr string | JArr "json list" | JObj "(string \<times> json) list"

text \<open>
  Reading a property: \<open>null.k\<close> throws, \<open>obj.k\<close> is the property or \<open>undefined\<close>
  (\<open>None\<close>), and the properties read here do not exist on the other values.
\<close>

fun getProp :: "json \<Rightarrow> string \<Rightarrow> err + json option" where
  "getProp JNull k = Inl TypeError"
| "getProp (JObj kvs) k = Inr (map_of kvs k)"
| "getProp _ k = Inr None"

fun truthy :: "json option \<Rightarrow> bool" where
  "truthy None = False"
| "truthy (Some JNull) = False"
| "truthy (Some (JBool b)) = b"
| "truthy (Some (JNum n)) = (n \<noteq> 0)"
| "truthy (Some (JStr str)) = (str \<noteq> [])"
| "truthy (Some _) = True"

fun typeof_object :: "json \<Rightarrow> bool" where
  "typeof_object JNull = True"
| "typeof_object (JArr _) = True"
| "typeof_object (JObj _) = True"
| "typeof_object _ = False"

text \<open>
  A value inside a template string: a string stands for itself; the text of any other
  value is the engine's and is left open.
\<close>

fun template_text :: "json option \<Rightarrow> string" where
  "template_text (Some (JStr str)) = str"
| "template_text _ = ''?''"

record Plugin =
  keys :: "EncryptionKeys option"
  enabled :: bool
  algorithmName :: string

definition isEnabled :: "Plugin \<Rightarrow> bool" where
  "isEnabled pl = (enabled pl \<and> keys pl \<noteq> None)"

text \<open>
  The body of the \<open>try\<close> block of \<open>processIncomingMessage\<close>. \<open>parse\<close> is \<open>JSON.parse\<close>
  (\<open>None\<close> on a syntax error) and \<open>decrypt\<close> the abstract method of the subclass, which
  returns the plaintext or throws.
\<close>

definition processIncoming_try ::
  "(string \<Rightarrow> json option) \<Rightarrow> (json \<Rightarrow> err + string) \<Rightarrow> Plugin \<Rightarrow> string \<Rightarrow> err + json" where
  "processIncoming_try parse decrypt pl messageStr =
     (case parse messageStr of
        None \<Rightarrow> Inl SyntaxError
      | Some parsed \<Rightarrow>
          (case getProp parsed ''type'' of
             Inl e \<Rightarrow> Inl e
           | Inr ty \<Rightarrow>
               (case getProp parsed ''encrypted'' of
                  Inl e \<Rightarrow> Inl e
                | Inr enc \<Rightarrow>
                    if ty = Some (JStr ''encrypted-plugin-message'') \<and> truthy enc
                    then
                      (if \<not> isEnabled pl
                       then Inl (Error ''Received encrypted message but encryption not enabled'')
                       else case getProp parsed ''algorithm'' of
                              Inl e \<Rightarrow> Inl e
                            | Inr alg \<Rightarrow>
                                if truthy alg \<and> alg \<noteq> Some (JStr (algorithmName pl))
                                then Inl (Error (''Algorithm mismatch: expected '' @
                                       algorithmName pl @ '', got '' @ template_text alg))
                                else (case enc of
                                        None \<Rightarrow> Inl TypeError
                                      | Some e \<Rightarrow>
                                          (case decrypt e of
                                             Inl er \<Rightarrow> Inl er
                                           | Inr decrypted \<Rightarrow>
                                               (case parse decrypted of
                                                  None \<Rightarrow> Inl SyntaxError
                                                | Some v \<Rightarrow> Inr v))))
                    else Inr parsed)))"

text \<open>
  \<open>processIncomingMessage\<close>: the \<open>catch\<close> clause has no binding and returns the message
  string for whatever the \<open>try\<close> block threw. The result is \<open>Inl\<close> where the call
  throws to its caller.
\<close>

definition processIncomingMessage ::
  "(string \<Rightarrow> json option) \<Rightarrow> (json \<Rightarrow> err + string) \<Rightarrow> Plugin \<Rightarrow> string \<Rightarrow> err + json" where
  "processIncomingMessage parse decrypt pl messageStr =
     (case processIncoming_try parse decrypt pl messageStr of
        Inl e \<Rightarrow> Inr (JStr messageStr)
      | Inr v \<Rightarrow> Inr v)"

text \<open>
  \<open>unwrapMessage\<close> returns \<open>{type, payload}\<close> (here a pair) or \<open>null\<close> (\<open>None\<close>);
  \<open>processed.payload || processed\<close> is the payload when truthy.
\<close>

definition unwrapMessage ::
  "(string \<Rightarrow> json option) \<Rightarrow> (json \<Rightarrow> err + string) \<Rightarrow> Plugin \<Rightarrow> string
     \<Rightarrow> err + (json \<times> json) option" where
  "unwrapMessage parse decrypt pl rawMessage =
     (case processIncomingMessage parse decrypt pl rawMessage of
        Inl e \<Rightarrow> Inr None
      | Inr processed \<Rightarrow>
          if \<not> typeof_object processed then Inr None
          else (case getProp processed ''type'' of
                  Inl e \<Rightarrow> Inr None
                | Inr ty \<Rightarrow>
                    if \<not> truthy ty then Inr None
                    else (case (ty, getProp processed ''payload'') of
                            (Some t, Inr pay) \<Rightarrow>
                              Inr (Some (t, (case pay of
                                               None \<Rightarrow> processed
                                             | Some v \<Rightarrow> if truthy pay then v else processed)))
                          | _ \<Rightarrow> Inr None)))"

section \<open>A small runtime to evaluate the code on\<close>

text \<open>
  Stand-ins for the library functions, simple enough to compute with: a 32-byte keyed
  checksum for HMAC, a commutative product for ECDH, bytes as characters for base64
  and a JSON codec that knows the init message and \<open>null\<close>.
\<close>

definition demo_hmac :: "Buffer \<Rightarrow> Buffer \<Rightarrow> Buffer" where
  "demo_hmac key data = take 32 (sum_list (key @ data) # data @ key @ replicate 32 0)"

definition demo_getPublicKey :: "Buffer \<Rightarrow> Buffer" where
  "demo_getPublicKey priv = priv"

definition demo_computeSecret :: "Buffer \<Rightarrow> Buffer \<Rightarrow> Buffer option" where
  "demo_computeSecret priv pub = (if pub = [] then None else Some (map2 (*) priv pub))"

definition demo_toBase64 :: "Buffer \<Rightarrow> string" where
  "demo_toBase64 b = map (\<lambda>w. char_of (unat w)) b"

definition demo_fromBase64 :: "string \<Rightarrow> Buffer" where
  "demo_fromBase64 str = map of_char str"

definition demo_rt0 :: runtime where
  "demo_rt0 =
     \<lparr>rt_hmac = demo_hmac, rt_getPublicKey = demo_getPublicKey,
      rt_computeSecret = demo_computeSecret, rt_toBase64 = demo_toBase64,
      rt_fromBase64 = demo_fromBase64, rt_JSON_parse = (\<lambda>_. None),
      rt_JSON_stringify = (\<lambda>_. ''demo-init'')\<rparr>"

definition demo_p0 :: SecureProvider where
  "demo_p0 =
     \<lparr>p_ecdh = [3], p_sessionId = demo_toBase64 (replicate 16 1),
      p_providerNonce = replicate 32 1, p_consumerNonce = None, p_sharedSecret = None,
      p_derivedKeys = None, p_confirmed = False\<rparr>"

definition demo_c0 :: SecureConsumer where
  "demo_c0 =
     \<lparr>c_ecdh = [5], c_sessionId = None, c_providerNonce = None,
      c_consumerNonce = replicate 32 2, c_sharedSecret = None, c_derivedKeys = None,
      c_confirmed = False, c_providerPublicKey = None\<rparr>"

definition demo_rt :: runtime where
  "demo_rt =
     demo_rt0\<lparr>rt_JSON_parse :=
       (\<lambda>str. if str = ''demo-init''
              then Some (PObject (handshake_init_message demo_rt0 demo_p0))
              else if str = ''null'' then Some PNull
              else None)\<rparr>"

text \<open>The states the two peers pass through in the run on the small runtime.\<close>

definition demo_c1 :: SecureConsumer where
  "demo_c1 = fst (handleMessage demo_rt demo_c0 (RawString (startHandshake demo_rt demo_p0)))"

definition demo_m1 :: "message option" where
  "demo_m1 =
     cr_response (snd (handleMessage demo_rt demo_c0 (RawString (startHandshake demo_rt demo_p0))))"

definition demo_p1 :: SecureProvider where
  "demo_p1 = fst (handleResponse demo_rt demo_p0 (deliver demo_m1))"

definition demo_p2 :: SecureProvider where
  "demo_p2 = fst (fst (honest_run demo_rt demo_p0 demo_c0))"

definition demo_c2 :: SecureConsumer where
  "demo_c2 = snd (fst (honest_run demo_rt demo_p0 demo_c0))"

definition demo_m3 :: "message option" where
  "demo_m3 = cr_response (fst (snd (snd (snd (honest_run demo_rt demo_p0 demo_c0)))))"

text \<open>A message with its session identifier replaced, as a man in the middle would.\<close>

definition with_sessionId :: "string \<Rightarrow> message option \<Rightarrow> raw" where
  "with_sessionId sid m =
     (case m of
        None \<Rightarrow> RawNull
      | Some x \<Rightarrow> RawObject (x\<lparr>m_sessionId := Some sid\<rparr>))"

text \<open>A message with its public key replaced.\<close>

definition with_publicKey :: "string \<Rightarrow> message option \<Rightarrow> raw" where
  "with_publicKey pk m =
     (case m of
        None \<Rightarrow> RawNull
      | Some x \<Rightarrow> RawObject (x\<lparr>m_publicKey := Some pk\<rparr>))"

text \<open>
  The two confirmation MACs of that run as they travel, and a KEY_CONFIRM_REQUEST that
  carries, next to its MAC, a session identifier, a public key and a nonce of the
  sender's choosing.
\<close>

definition demo_K :: Buffer where
  "demo_K = confirmationKey (KeySchedule demo_hmac [15] (replicate 32 1) (replicate 32 2))"

definition demo_macI :: string where
  "demo_macI = demo_toBase64 (demo_hmac demo_K (replicate 32 1 @ replicate 32 2 @ [3] @ [5]))"

definition demo_macR :: string where
  "demo_macR = demo_toBase64 (demo_hmac demo_K (replicate 32 2 @ replicate 32 1 @ [5] @ [3]))"

definition demo_request :: "string \<Rightarrow> message" where
  "demo_request mac =
     (key_confirmation_request (Some mac))
       \<lparr>m_sessionId := Some ''other-session'',
        m_publicKey := Some (demo_toBase64 [9]),
        m_providerNonce := Some (demo_toBase64 [9])\<rparr>"

text \<open>
  An encrypted envelope for the plugin: a JSON codec that knows the one envelope string,
  a plugin with keys installed, and a \<open>decrypt\<close> whose tag check fails.
\<close>

definition demo_envelope :: json where
  "demo_envelope =
     JObj [(''type'', JStr ''encrypted-plugin-message''),
           (''algorithm'', JStr ''aes-256-gcm''),
           (''payload'', JNull),
           (''encrypted'',
              JObj [(''data'', JStr ''AAAA''),
                    (''metadata'', JObj [(''iv'', JStr ''AAAAAAAAAAAAAAAA''),
                                        (''tag'', JStr ''AAAAAAAAAAAAAAAAAAAAAA=='')])])]"

definition demo_parse :: "string \<Rightarrow> json option" where
  "demo_parse str = (if str = ''demo-envelope'' then Some demo_envelope else None)"

definition demo_decrypt :: "json \<Rightarrow> err + string" where
  "demo_decrypt e = Inl CryptoError"

definition demo_plugin :: Plugin where
  "demo_plugin =
     \<lparr>keys = Some \<lparr>encryptionKey = replicate 32 1, authenticationKey = replicate 32 2\<rparr>,
      enabled = True, algorithmName = ''aes-256-gcm''\<rparr>"

section \<open>HKDF: the loop against RFC 5869 and the length limit\<close>

lemma expand_loop_blocks:
  "expand_loop hmac prk info n (Suc i) (rfc5869_T hmac prk info i) result =
     result @ map (rfc5869_T hmac prk info) [Suc i..<Suc n]"
proof (induction "n - i" arbitrary: i result)
  case 0
  then show ?case by (subst expand_loop.simps) simp
next
  case (Suc k)
  then have lt: "i < n" and k: "k = n - Suc i" by auto
  have "expand_loop hmac prk info n (Suc i) (rfc5869_T hmac prk info i) result =
        expand_loop hmac prk info n (Suc (Suc i)) (rfc5869_T hmac prk info (Suc i))
          (result @ [rfc5869_T hmac prk info (Suc i)])"
    using lt by (subst expand_loop.simps) (simp add: Let_def)
  also have "\<dots> = (result @ [rfc5869_T hmac prk info (Suc i)]) @
        map (rfc5869_T hmac prk info) [Suc (Suc i)..<Suc n]"
    using Suc.hyps(1) [OF k] .
  also have "\<dots> = result @ map (rfc5869_T hmac prk info) [Suc i..<Suc n]"
    using upt_conv_Cons [of "Suc i" "Suc n"] lt by simp
  finally show ?case .
qed

lemma expand_loop_from_start:
  "expand_loop hmac prk info n 1 [] [] = map (rfc5869_T hmac prk info) [1..<Suc n]"
  using expand_loop_blocks [of hmac prk info n 0 "[]"] by simp

lemma HKDF_expand_rfc5869:
  "HKDF_expand hmac prk info L =
     (if 8160 < L then Inl (Error ''HKDF: requested length too large'')
      else Inr (rfc5869_okm hmac prk info (nat ((L + 31) div 32)) (nat L)))"
proof -
  have ceil: "(255 < (L + (32 - 1)) div 32) = (8160 < L)" by presburger
  show ?thesis
    unfolding HKDF_expand_def Let_def ceil expand_loop_from_start rfc5869_okm_def
    by simp
qed

lemma length_concat_blocks:
  "list_all (\<lambda>x. length x = c) xs \<Longrightarrow> length (concat xs) = c * length xs"
  by (induction xs) auto

lemma length_rfc5869_T:
  "\<forall>key data. length (hmac key data) = 32 \<Longrightarrow> 0 < i \<Longrightarrow> length (rfc5869_T hmac prk info i) = 32"
  by (cases i) simp_all

lemma length_rfc5869_okm:
  assumes "\<forall>key data. length (hmac key data) = 32" and "L \<le> 32 * n"
  shows "length (rfc5869_okm hmac prk info n L) = L"
proof -
  have "list_all (\<lambda>x. length x = 32) (map (rfc5869_T hmac prk info) [1..<Suc n])"
    using assms(1) by (auto simp: list_all_iff length_rfc5869_T)
  then have "length (concat (map (rfc5869_T hmac prk info) [1..<Suc n])) = 32 * n"
    using length_concat_blocks by fastforce
  then show ?thesis using assms(2) by (simp add: rfc5869_okm_def)
qed

lemma length_demo_hmac: "length (demo_hmac key data) = 32"
  by (simp add: demo_hmac_def)

section \<open>Helper lemmas on the handlers\<close>

lemma xor_eq_0_byte: "(x XOR y = 0) = (x = (y :: 8 word))"
  by (metis xor.right_neutral xor_self_eq xor.assoc xor.left_neutral)

lemma compare_loop_eq_0:
  "length a = length b \<Longrightarrow> (compare_loop a b r = 0) = (r = 0 \<and> a = b)"
  by (induction a b r rule: compare_loop.induct) (auto simp: or_eq_0_iff xor_eq_0_byte)

lemma constantTimeCompare_iff: "constantTimeCompare a b = (a = b)"
  by (auto simp: constantTimeCompare_def compare_loop_eq_0)

lemma HKDF_derive_32:
  "HKDF_derive hmac ikm salt info 32 = Inr (rfc5869_okm hmac (hmac salt ikm) info 1 32)"
  by (simp add: HKDF_derive_def HKDF_extract_def HKDF_expand_rfc5869)

lemma provider_deriveKeys_KeySchedule:
  assumes "p_sharedSecret s = Some secret" and "p_consumerNonce s = Some cn"
  shows "provider_deriveKeys rt s =
           Inr (s\<lparr>p_derivedKeys := Some (KeySchedule (rt_hmac rt) secret (p_providerNonce s) cn)\<rparr>)"
  using assms
  by (simp add: provider_deriveKeys_def KeySchedule_def HKDF_derive_32 createContextInfo_def
      Let_def)

lemma consumer_deriveKeys_KeySchedule:
  assumes "c_sharedSecret s = Some secret" and "c_providerNonce s = Some pn"
  shows "consumer_deriveKeys rt s =
           Inr (s\<lparr>c_derivedKeys := Some (KeySchedule (rt_hmac rt) secret pn (c_consumerNonce s))\<rparr>)"
  using assms
  by (simp add: consumer_deriveKeys_def KeySchedule_def HKDF_derive_32 createContextInfo_def
      Let_def)


lemma consumer_processHandshakeInit_ok:
  assumes "m_version data = Some 1"
    and "includes_opt (m_supportedCiphers data) ''aes-256-gcm''"
    and "includes_opt (m_supportedHashes data) ''sha256''"
    and "m_providerNonce data = Some pn" and "m_publicKey data = Some pk"
    and "rt_computeSecret rt (c_ecdh s) (rt_fromBase64 rt pk) = Some secret"
  shows "consumer_processHandshakeInit rt s data =
     (s\<lparr>c_sessionId := m_sessionId data,
        c_providerNonce := Some (rt_fromBase64 rt pn),
        c_providerPublicKey := Some (rt_fromBase64 rt pk),
        c_sharedSecret := Some secret,
        c_derivedKeys := Some (KeySchedule (rt_hmac rt) secret (rt_fromBase64 rt pn)
                                 (c_consumerNonce s))\<rparr>,
      Inr \<lparr>cr_type = ''handshake-response'',
           cr_response = Some (empty_message
             \<lparr>m_type := Some ''handshake-response'',
              m_sessionId := m_sessionId data,
              m_publicKey := Some (rt_toBase64 rt (rt_getPublicKey rt (c_ecdh s))),
              m_consumerNonce := Some (rt_toBase64 rt (c_consumerNonce s)),
              m_selectedCipher := Some ''aes-256-gcm'',
              m_selectedHash := Some ''sha256''\<rparr>),
           cr_confirmed = False, cr_error = None\<rparr>)"
  using assms
  by (simp add: consumer_processHandshakeInit_def Let_def consumer_deriveKeys_KeySchedule)

lemma provider_processHandshakeResponse_ok:
  assumes "m_sessionId data = Some (p_sessionId s)"
    and "m_consumerNonce data = Some cn" and "m_publicKey data = Some pk"
    and "rt_computeSecret rt (p_ecdh s) (rt_fromBase64 rt pk) = Some secret"
  shows "provider_processHandshakeResponse rt s data =
     (s\<lparr>p_consumerNonce := Some (rt_fromBase64 rt cn),
        p_sharedSecret := Some secret,
        p_derivedKeys := Some (KeySchedule (rt_hmac rt) secret (p_providerNonce s)
                                 (rt_fromBase64 rt cn))\<rparr>,
      Inr \<lparr>pr_type = ''send-confirmation'', pr_confirmed = False, pr_error = None,
           pr_confirmationMac = Some (rt_toBase64 rt
             (rt_hmac rt
                (confirmationKey (KeySchedule (rt_hmac rt) secret (p_providerNonce s)
                   (rt_fromBase64 rt cn)))
                (p_providerNonce s @ rt_fromBase64 rt cn @ rt_getPublicKey rt (p_ecdh s) @
                 rt_fromBase64 rt pk)))\<rparr>)"
  using assms
  by (simp add: provider_processHandshakeResponse_def Let_def provider_deriveKeys_KeySchedule)

lemma consumer_processKeyConfirmationRequest_eq:
  assumes "m_confirmationMac data = Some mac"
    and "c_providerNonce s = Some pn" and "c_providerPublicKey s = Some ppk"
    and "c_derivedKeys s = Some dk"
  shows "consumer_processKeyConfirmationRequest rt s data =
     (if constantTimeCompare (rt_fromBase64 rt mac)
           (rt_hmac rt (confirmationKey dk)
              (pn @ c_consumerNonce s @ ppk @ rt_getPublicKey rt (c_ecdh s)))
      then (s\<lparr>c_confirmed := True\<rparr>,
            Inr \<lparr>cr_type = ''key-confirmation'',
                 cr_response = Some (empty_message
                   \<lparr>m_type := Some ''key-confirmation'',
                    m_sessionId := c_sessionId s,
                    m_publicKey := Some (rt_toBase64 rt (rt_getPublicKey rt (c_ecdh s))),
                    m_confirmationMac := Some (rt_toBase64 rt
                      (rt_hmac rt (confirmationKey dk)
                         (c_consumerNonce s @ pn @ rt_getPublicKey rt (c_ecdh s) @ ppk)))\<rparr>),
                 cr_confirmed = True, cr_error = None\<rparr>)
      else (s, Inl (Error ''Provider key confirmation failed - potential MITM attack'')))"
  using assms
  by (simp add: consumer_processKeyConfirmationRequest_def Let_def)

lemma provider_processKeyConfirmation_eq:
  assumes "m_confirmationMac data = Some mac" and "m_publicKey data = Some pk"
    and "p_consumerNonce s = Some cn" and "p_derivedKeys s = Some dk"
  shows "provider_processKeyConfirmation rt s data =
     (if constantTimeCompare (rt_fromBase64 rt mac)
           (rt_hmac rt (confirmationKey dk)
              (cn @ p_providerNonce s @ rt_fromBase64 rt pk @ rt_getPublicKey rt (p_ecdh s)))
      then (s\<lparr>p_confirmed := True\<rparr>,
            Inr \<lparr>pr_type = ''handshake-complete'', pr_confirmed = True, pr_error = None,
                 pr_confirmationMac = None\<rparr>)
      else (s, Inl (Error ''Key confirmation failed - potential MITM attack'')))"
  using assms
  by (simp add: provider_processKeyConfirmation_def Let_def)

section \<open>The honest four-message run\<close>

lemma honest_init_delivered:
  assumes b64: "\<forall>b. rt_fromBase64 rt (rt_toBase64 rt b) = b"
    and json: "rt_JSON_parse rt (startHandshake rt p0) = Some (PObject (handshake_init_message rt p0))"
    and ecdh_c: "rt_computeSecret rt (c_ecdh c0) (rt_getPublicKey rt (p_ecdh p0)) = Some secret"
  shows "handleMessage rt c0 (RawString (startHandshake rt p0)) =
    (c0\<lparr>c_sessionId := Some (p_sessionId p0),
        c_providerNonce := Some (p_providerNonce p0),
        c_providerPublicKey := Some (rt_getPublicKey rt (p_ecdh p0)),
        c_sharedSecret := Some secret,
        c_derivedKeys := Some (KeySchedule (rt_hmac rt) secret (p_providerNonce p0)
                                 (c_consumerNonce c0))\<rparr>,
     \<lparr>cr_type = ''handshake-response'',
      cr_response = Some (empty_message
        \<lparr>m_type := Some ''handshake-response'', m_sessionId := Some (p_sessionId p0),
         m_publicKey := Some (rt_toBase64 rt (rt_getPublicKey rt (c_ecdh c0))),
         m_consumerNonce := Some (rt_toBase64 rt (c_consumerNonce c0)),
         m_selectedCipher := Some ''aes-256-gcm'', m_selectedHash := Some ''sha256''\<rparr>),
      cr_confirmed = False, cr_error = None\<rparr>)"
proof -
  have "consumer_processHandshakeInit rt c0 (handshake_init_message rt p0) =
    (c0\<lparr>c_sessionId := Some (p_sessionId p0),
        c_providerNonce := Some (p_providerNonce p0),
        c_providerPublicKey := Some (rt_getPublicKey rt (p_ecdh p0)),
        c_sharedSecret := Some secret,
        c_derivedKeys := Some (KeySchedule (rt_hmac rt) secret (p_providerNonce p0)
                                 (c_consumerNonce c0))\<rparr>,
     Inr \<lparr>cr_type = ''handshake-response'',
      cr_response = Some (empty_message
        \<lparr>m_type := Some ''handshake-response'', m_sessionId := Some (p_sessionId p0),
         m_publicKey := Some (rt_toBase64 rt (rt_getPublicKey rt (c_ecdh c0))),
         m_consumerNonce := Some (rt_toBase64 rt (c_consumerNonce c0)),
         m_selectedCipher := Some ''aes-256-gcm'', m_selectedHash := Some ''sha256''\<rparr>),
      cr_confirmed = False, cr_error = None\<rparr>)"
    using b64 ecdh_c
    by (subst consumer_processHandshakeInit_ok
          [where pn = "rt_toBase64 rt (p_providerNonce p0)"
             and pk = "rt_toBase64 rt (rt_getPublicKey rt (p_ecdh p0))" and secret = secret])
       (simp_all add: handshake_init_message_def empty_message_def includes_opt_def)
  then show ?thesis
    using json by (simp add: handleMessage_def normalizeMessage_def handshake_init_message_def)
qed

lemma honest_response_delivered:
  assumes b64: "\<forall>b. rt_fromBase64 rt (rt_toBase64 rt b) = b"
    and ecdh_p: "rt_computeSecret rt (p_ecdh p0) pubC = Some secret"
  shows "handleResponse rt p0 (RawObject (empty_message
        \<lparr>m_type := Some ''handshake-response'', m_sessionId := Some (p_sessionId p0),
         m_publicKey := Some (rt_toBase64 rt pubC),
         m_consumerNonce := Some (rt_toBase64 rt cN),
         m_selectedCipher := Some ''aes-256-gcm'', m_selectedHash := Some ''sha256''\<rparr>)) =
    (p0\<lparr>p_consumerNonce := Some cN, p_sharedSecret := Some secret,
        p_derivedKeys := Some (KeySchedule (rt_hmac rt) secret (p_providerNonce p0) cN)\<rparr>,
     \<lparr>pr_type = ''send-confirmation'', pr_confirmed = False, pr_error = None,
      pr_confirmationMac = Some (rt_toBase64 rt
        (rt_hmac rt (confirmationKey (KeySchedule (rt_hmac rt) secret (p_providerNonce p0) cN))
           (p_providerNonce p0 @ cN @ rt_getPublicKey rt (p_ecdh p0) @ pubC)))\<rparr>)"
proof -
  let ?m1 = "empty_message
        \<lparr>m_type := Some ''handshake-response'', m_sessionId := Some (p_sessionId p0),
         m_publicKey := Some (rt_toBase64 rt pubC),
         m_consumerNonce := Some (rt_toBase64 rt cN),
         m_selectedCipher := Some ''aes-256-gcm'', m_selectedHash := Some ''sha256''\<rparr>"
  have "provider_processHandshakeResponse rt p0 ?m1 =
    (p0\<lparr>p_consumerNonce := Some cN, p_sharedSecret := Some secret,
        p_derivedKeys := Some (KeySchedule (rt_hmac rt) secret (p_providerNonce p0) cN)\<rparr>,
     Inr \<lparr>pr_type = ''send-confirmation'', pr_confirmed = False, pr_error = None,
      pr_confirmationMac = Some (rt_toBase64 rt
        (rt_hmac rt (confirmationKey (KeySchedule (rt_hmac rt) secret (p_providerNonce p0) cN))
           (p_providerNonce p0 @ cN @ rt_getPublicKey rt (p_ecdh p0) @ pubC)))\<rparr>)"
    using b64 ecdh_p
    by (subst provider_processHandshakeResponse_ok [where cn = "rt_toBase64 rt cN"
          and pk = "rt_toBase64 rt pubC" and secret = secret])
       (simp_all add: empty_message_def)
  then show ?thesis
    by (simp add: handleResponse_def normalizeMessage_def)
qed

lemma handleMessage_confirmation_request:
  assumes "c_providerNonce s = Some pn" and "c_providerPublicKey s = Some ppk"
    and "c_derivedKeys s = Some dk"
  shows "handleMessage rt s (RawObject (key_confirmation_request (Some mac))) =
     (if rt_fromBase64 rt mac =
           rt_hmac rt (confirmationKey dk)
              (pn @ c_consumerNonce s @ ppk @ rt_getPublicKey rt (c_ecdh s))
      then (s\<lparr>c_confirmed := True\<rparr>,
            \<lparr>cr_type = ''key-confirmation'',
             cr_response = Some (empty_message
               \<lparr>m_type := Some ''key-confirmation'',
                m_sessionId := c_sessionId s,
                m_publicKey := Some (rt_toBase64 rt (rt_getPublicKey rt (c_ecdh s))),
                m_confirmationMac := Some (rt_toBase64 rt
                  (rt_hmac rt (confirmationKey dk)
                     (c_consumerNonce s @ pn @ rt_getPublicKey rt (c_ecdh s) @ ppk)))\<rparr>),
             cr_confirmed = True, cr_error = None\<rparr>)
      else (s, consumer_error
                 (Error ''Provider key confirmation failed - potential MITM attack'')))"
  using assms
  by (simp add: handleMessage_def normalizeMessage_def key_confirmation_request_def
      empty_message_def constantTimeCompare_iff
      consumer_processKeyConfirmationRequest_eq [where mac = mac and pn = pn and ppk = ppk
        and dk = dk])

lemma handleResponse_key_confirmation:
  assumes "m_type data = Some ''key-confirmation''"
    and "m_confirmationMac data = Some mac" and "m_publicKey data = Some pk"
    and "p_consumerNonce s = Some cn" and "p_derivedKeys s = Some dk"
  shows "handleResponse rt s (RawObject data) =
     (if rt_fromBase64 rt mac =
           rt_hmac rt (confirmationKey dk)
              (cn @ p_providerNonce s @ rt_fromBase64 rt pk @ rt_getPublicKey rt (p_ecdh s))
      then (s\<lparr>p_confirmed := True\<rparr>,
            \<lparr>pr_type = ''handshake-complete'', pr_confirmed = True, pr_error = None,
             pr_confirmationMac = None\<rparr>)
      else (s, provider_error (Error ''Key confirmation failed - potential MITM attack'')))"
  using assms
  by (simp add: handleResponse_def normalizeMessage_def constantTimeCompare_iff
      provider_processKeyConfirmation_eq [where mac = mac and pk = pk and cn = cn and dk = dk])

lemma honest_run_explicit:
  assumes b64: "\<forall>b. rt_fromBase64 rt (rt_toBase64 rt b) = b"
    and json: "rt_JSON_parse rt (startHandshake rt p0) = Some (PObject (handshake_init_message rt p0))"
    and ecdh_p: "rt_computeSecret rt (p_ecdh p0) (rt_getPublicKey rt (c_ecdh c0)) = Some secret"
    and ecdh_c: "rt_computeSecret rt (c_ecdh c0) (rt_getPublicKey rt (p_ecdh p0)) = Some secret"
    and pN: "pN = p_providerNonce p0" and cN: "cN = c_consumerNonce c0"
    and pubP: "pubP = rt_getPublicKey rt (p_ecdh p0)"
    and pubC: "pubC = rt_getPublicKey rt (c_ecdh c0)"
    and dk: "dk = KeySchedule (rt_hmac rt) secret pN cN"
    and macI: "macI = rt_hmac rt (confirmationKey dk) (pN @ cN @ pubP @ pubC)"
    and macR: "macR = rt_hmac rt (confirmationKey dk) (cN @ pN @ pubC @ pubP)"
  shows "honest_run rt p0 c0 =
    ((p0\<lparr>p_consumerNonce := Some cN, p_sharedSecret := Some secret,
         p_derivedKeys := Some dk, p_confirmed := True\<rparr>,
      c0\<lparr>c_sessionId := Some (p_sessionId p0), c_providerNonce := Some pN,
         c_providerPublicKey := Some pubP, c_sharedSecret := Some secret,
         c_derivedKeys := Some dk, c_confirmed := True\<rparr>),
     (\<lparr>cr_type = ''handshake-response'',
       cr_response = Some (empty_message
         \<lparr>m_type := Some ''handshake-response'', m_sessionId := Some (p_sessionId p0),
          m_publicKey := Some (rt_toBase64 rt pubC),
          m_consumerNonce := Some (rt_toBase64 rt cN),
          m_selectedCipher := Some ''aes-256-gcm'', m_selectedHash := Some ''sha256''\<rparr>),
       cr_confirmed = False, cr_error = None\<rparr>,
      \<lparr>pr_type = ''send-confirmation'', pr_confirmed = False, pr_error = None,
       pr_confirmationMac = Some (rt_toBase64 rt macI)\<rparr>,
      \<lparr>cr_type = ''key-confirmation'',
       cr_response = Some (empty_message
         \<lparr>m_type := Some ''key-confirmation'', m_sessionId := Some (p_sessionId p0),
          m_publicKey := Some (rt_toBase64 rt pubC),
          m_confirmationMac := Some (rt_toBase64 rt macR)\<rparr>),
       cr_confirmed = True, cr_error = None\<rparr>,
      \<lparr>pr_type = ''handshake-complete'', pr_confirmed = True, pr_error = None,
       pr_confirmationMac = None\<rparr>))"
proof -
  let ?c1 = "c0\<lparr>c_sessionId := Some (p_sessionId p0), c_providerNonce := Some pN,
         c_providerPublicKey := Some pubP, c_sharedSecret := Some secret,
         c_derivedKeys := Some dk\<rparr>"
  let ?p1 = "p0\<lparr>p_consumerNonce := Some cN, p_sharedSecret := Some secret,
         p_derivedKeys := Some dk\<rparr>"
  let ?m3 = "empty_message
         \<lparr>m_type := Some ''key-confirmation'', m_sessionId := Some (p_sessionId p0),
          m_publicKey := Some (rt_toBase64 rt pubC),
          m_confirmationMac := Some (rt_toBase64 rt macR)\<rparr>"
  note step1 = honest_init_delivered [OF b64 json ecdh_c]
  note step2 = honest_response_delivered [OF b64 ecdh_p, of "c_consumerNonce c0"]
  have step3: "handleMessage rt ?c1
                 (RawObject (key_confirmation_request (Some (rt_toBase64 rt macI)))) =
               (?c1\<lparr>c_confirmed := True\<rparr>,
                \<lparr>cr_type = ''key-confirmation'', cr_response = Some ?m3,
                 cr_confirmed = True, cr_error = None\<rparr>)"
    using b64
    by (subst handleMessage_confirmation_request [where pn = pN and ppk = pubP and dk = dk])
       (simp_all add: pN cN pubP pubC macI macR)
  have step4: "handleResponse rt ?p1 (RawObject ?m3) =
               (?p1\<lparr>p_confirmed := True\<rparr>,
                \<lparr>pr_type = ''handshake-complete'', pr_confirmed = True, pr_error = None,
                 pr_confirmationMac = None\<rparr>)"
    using b64
    by (subst handleResponse_key_confirmation [where mac = "rt_toBase64 rt macR"
          and pk = "rt_toBase64 rt pubC" and cn = cN and dk = dk])
       (simp_all add: empty_message_def pN cN pubP pubC macI macR)
  show ?thesis
    unfolding honest_run_def Let_def step1
    using step3 step4
    by (simp add: deliver_def step2 pN cN pubP pubC dk macI macR)
qed

section \<open>Facts about the small runtime\<close>

lemma byte_char_roundtrip: "of_char (char_of (unat w)) = (w :: 8 word)"
proof -
  have "(of_char (char_of (unat w)) :: 8 word) = of_nat (of_char (char_of (unat w)))"
    by (rule of_nat_of_char [symmetric])
  also have "\<dots> = of_nat (unat w mod 256)"
    by (simp only: of_char_of)
  also have "\<dots> = of_nat (unat w)"
    using unsigned_less [of w, where ?'a = nat] by simp
  also have "\<dots> = w" by simp
  finally show ?thesis .
qed

lemma demo_base64_roundtrip: "demo_fromBase64 (demo_toBase64 b) = b"
  by (induction b) (simp_all add: demo_fromBase64_def demo_toBase64_def byte_char_roundtrip)

lemma demo_rt_fields:
  "rt_hmac demo_rt = demo_hmac" "rt_getPublicKey demo_rt = demo_getPublicKey"
  "rt_computeSecret demo_rt = demo_computeSecret" "rt_toBase64 demo_rt = demo_toBase64"
  "rt_fromBase64 demo_rt = demo_fromBase64"
  by (simp_all add: demo_rt_def demo_rt0_def)

lemma demo_rt_base64: "\<forall>b. rt_fromBase64 demo_rt (rt_toBase64 demo_rt b) = b"
  by (simp add: demo_rt_fields demo_base64_roundtrip)

lemma demo_rt_json:
  "rt_JSON_parse demo_rt (startHandshake demo_rt demo_p0) =
     Some (PObject (handshake_init_message demo_rt demo_p0))"
  by (simp add: demo_rt_def demo_rt0_def startHandshake_def handshake_init_message_def)

lemma demo_rt_ecdh:
  "rt_computeSecret demo_rt (p_ecdh demo_p0) (rt_getPublicKey demo_rt (c_ecdh demo_c0)) = Some [15]"
  "rt_computeSecret demo_rt (c_ecdh demo_c0) (rt_getPublicKey demo_rt (p_ecdh demo_p0)) = Some [15]"
  by (simp_all add: demo_rt_fields demo_p0_def demo_c0_def demo_computeSecret_def
      demo_getPublicKey_def)

lemma demo_rt_hmac_length: "\<forall>key data. length (rt_hmac demo_rt key data) = 32"
  by (simp add: demo_rt_fields length_demo_hmac)

lemma demo_fresh_provider: "SecureProvider_new demo_rt [3] (\<lambda>n. replicate n 1) = Inr demo_p0"
  by (simp add: SecureProvider_new_def SecureRandom_base64_def SecureRandom_bytes_def
      demo_p0_def demo_rt_fields list_all_iff)

lemma demo_fresh_consumer: "SecureConsumer_new [5] (\<lambda>n. replicate n 2) = Inr demo_c0"
  by (simp add: SecureConsumer_new_def SecureRandom_bytes_def demo_c0_def list_all_iff)

text \<open>The states and messages of the run on the small runtime.\<close>

lemma demo_m1_value:
  "demo_m1 = Some (empty_message
        \<lparr>m_type := Some ''handshake-response'', m_sessionId := Some (p_sessionId demo_p0),
         m_publicKey := Some (rt_toBase64 demo_rt (rt_getPublicKey demo_rt (c_ecdh demo_c0))),
         m_consumerNonce := Some (rt_toBase64 demo_rt (c_consumerNonce demo_c0)),
         m_selectedCipher := Some ''aes-256-gcm'', m_selectedHash := Some ''sha256''\<rparr>)"
  unfolding demo_m1_def
  by (simp add: honest_init_delivered [OF demo_rt_base64 demo_rt_json demo_rt_ecdh(2)])

lemma demo_c1_value:
  "demo_c1 = demo_c0\<lparr>c_sessionId := Some (p_sessionId demo_p0),
        c_providerNonce := Some (p_providerNonce demo_p0),
        c_providerPublicKey := Some (rt_getPublicKey demo_rt (p_ecdh demo_p0)),
        c_sharedSecret := Some [15],
        c_derivedKeys := Some (KeySchedule (rt_hmac demo_rt) [15] (p_providerNonce demo_p0)
                                 (c_consumerNonce demo_c0))\<rparr>"
  unfolding demo_c1_def
  by (simp add: honest_init_delivered [OF demo_rt_base64 demo_rt_json demo_rt_ecdh(2)])

lemma demo_p1_value:
  "demo_p1 = demo_p0\<lparr>p_consumerNonce := Some (c_consumerNonce demo_c0),
        p_sharedSecret := Some [15],
        p_derivedKeys := Some (KeySchedule (rt_hmac demo_rt) [15] (p_providerNonce demo_p0)
                                 (c_consumerNonce demo_c0))\<rparr>"
  unfolding demo_p1_def demo_m1_value deliver_def option.case
  by (simp add: honest_response_delivered [OF demo_rt_base64 demo_rt_ecdh(1)])

lemmas demo_run_value =
  honest_run_explicit [OF demo_rt_base64 demo_rt_json demo_rt_ecdh refl refl refl refl refl
    refl refl]

lemma demo_m3_value:
  "demo_m3 = Some (empty_message
     \<lparr>m_type := Some ''key-confirmation'', m_sessionId := Some (p_sessionId demo_p0),
      m_publicKey := Some (rt_toBase64 demo_rt (rt_getPublicKey demo_rt (c_ecdh demo_c0))),
      m_confirmationMac := Some (rt_toBase64 demo_rt
        (rt_hmac demo_rt
           (confirmationKey (KeySchedule (rt_hmac demo_rt) [15] (p_providerNonce demo_p0)
              (c_consumerNonce demo_c0)))
           (c_consumerNonce demo_c0 @ p_providerNonce demo_p0 @
            rt_getPublicKey demo_rt (c_ecdh demo_c0) @
            rt_getPublicKey demo_rt (p_ecdh demo_p0))))\<rparr>)"
  unfolding demo_m3_def demo_run_value by simp

lemma demo_p2_value: "demo_p2 = demo_p1\<lparr>p_confirmed := True\<rparr>"
  unfolding demo_p2_def demo_run_value demo_p1_value by simp

lemma demo_c2_value: "demo_c2 = demo_c1\<lparr>c_confirmed := True\<rparr>"
  unfolding demo_c2_def demo_run_value demo_c1_value by simp

lemma demo_sessionId: "p_sessionId demo_p0 \<noteq> ''different-session-id''"
proof
  assume "p_sessionId demo_p0 = ''different-session-id''"
  then have "length (p_sessionId demo_p0) = length ''different-session-id''"
    by (rule arg_cong)
  then show False by (simp add: demo_p0_def demo_toBase64_def)
qed

text \<open>Any consumer with the demo key pair answers the demo init; likewise the provider.\<close>

lemma demo_init_any_consumer:
  assumes "c_ecdh c = c_ecdh demo_c0"
  shows "cr_type (snd (handleMessage demo_rt c (RawString (startHandshake demo_rt demo_p0)))) =
           ''handshake-response''"
    and "cr_error (snd (handleMessage demo_rt c (RawString (startHandshake demo_rt demo_p0)))) =
           None"
proof -
  have "rt_computeSecret demo_rt (c_ecdh c) (rt_getPublicKey demo_rt (p_ecdh demo_p0)) =
          Some [15]"
    using demo_rt_ecdh(2) assms by simp
  note r = honest_init_delivered [OF demo_rt_base64 demo_rt_json this]
  show "cr_type (snd (handleMessage demo_rt c (RawString (startHandshake demo_rt demo_p0)))) =
           ''handshake-response''"
    by (simp add: r)
  show "cr_error (snd (handleMessage demo_rt c (RawString (startHandshake demo_rt demo_p0)))) =
           None"
    by (simp add: r)
qed

lemma demo_response_any_provider:
  assumes "p_ecdh p = p_ecdh demo_p0" and "p_sessionId p = p_sessionId demo_p0"
  shows "pr_type (snd (handleResponse demo_rt p (deliver demo_m1))) = ''send-confirmation''"
    and "pr_error (snd (handleResponse demo_rt p (deliver demo_m1))) = None"
proof -
  have "rt_computeSecret demo_rt (p_ecdh p) (rt_getPublicKey demo_rt (c_ecdh demo_c0)) =
          Some [15]"
    using demo_rt_ecdh(1) assms by simp
  note r = honest_response_delivered [OF demo_rt_base64 this, of "c_consumerNonce demo_c0"]
  have d: "deliver demo_m1 = RawObject (empty_message
        \<lparr>m_type := Some ''handshake-response'', m_sessionId := Some (p_sessionId p),
         m_publicKey := Some (rt_toBase64 demo_rt (rt_getPublicKey demo_rt (c_ecdh demo_c0))),
         m_consumerNonce := Some (rt_toBase64 demo_rt (c_consumerNonce demo_c0)),
         m_selectedCipher := Some ''aes-256-gcm'', m_selectedHash := Some ''sha256''\<rparr>)"
    by (simp add: deliver_def demo_m1_value assms(2))
  show "pr_type (snd (handleResponse demo_rt p (deliver demo_m1))) = ''send-confirmation''"
    unfolding d r by simp
  show "pr_error (snd (handleResponse demo_rt p (deliver demo_m1))) = None"
    unfolding d r by simp
qed

lemma demo_hmac_sum: "demo_hmac key d = demo_hmac key d' \<Longrightarrow> sum_list d = sum_list d'"
  by (simp add: demo_hmac_def)

lemma demo_hmac_hd:
  "d \<noteq> [] \<Longrightarrow> d' \<noteq> [] \<Longrightarrow> demo_hmac key d = demo_hmac key d' \<Longrightarrow> hd d = hd d'"
  by (cases d; cases d') (simp_all add: demo_hmac_def)

section \<open>Key agreement\<close>

lemma length_KeySchedule:
  assumes "\<forall>key data. length (hmac key data) = 32"
  shows "length (encryptionKey (KeySchedule hmac secret pN cN)) = 32"
    and "length (authenticationKey (KeySchedule hmac secret pN cN)) = 32"
    and "length (confirmationKey (KeySchedule hmac secret pN cN)) = 32"
  using assms by (simp_all add: KeySchedule_def Let_def length_rfc5869_okm)

text \<open>
  Claim C1. In every honest four-message run (HANDSHAKE_INIT, HANDSHAKE_RESPONSE,
  KEY_CONFIRM_REQUEST and KEY_CONFIRMATION delivered unmodified between a SecureProvider
  and a SecureConsumer) both peers end with derived keys exposed, the provider's
  encryption key is byte-identical to the consumer's, likewise the authentication key,
  and each is 32 bytes long. Honest means: base64 and JSON decode what they encoded,
  ECDH gives both sides the same secret, HMAC-SHA-256 tags have 32 bytes. The initial
  states are arbitrary, freshly constructed ones included.
\<close>

theorem honest_run_key_agreement:
  assumes b64: "\<forall>b. rt_fromBase64 rt (rt_toBase64 rt b) = b"
    and json: "rt_JSON_parse rt (startHandshake rt p0) = Some (PObject (handshake_init_message rt p0))"
    and ecdh_p: "rt_computeSecret rt (p_ecdh p0) (rt_getPublicKey rt (c_ecdh c0)) = Some secret"
    and ecdh_c: "rt_computeSecret rt (c_ecdh c0) (rt_getPublicKey rt (p_ecdh p0)) = Some secret"
    and hlen: "\<forall>key data. length (rt_hmac rt key data) = 32"
  shows "\<exists>kp kc.
           provider_getDerivedKeys (fst (fst (honest_run rt p0 c0))) = Some kp
         \<and> consumer_getDerivedKeys (snd (fst (honest_run rt p0 c0))) = Some kc
         \<and> encryptionKey kp = encryptionKey kc
         \<and> authenticationKey kp = authenticationKey kc
         \<and> length (encryptionKey kp) = 32 \<and> length (authenticationKey kp) = 32"
proof -
  note run = honest_run_explicit [OF b64 json ecdh_p ecdh_c refl refl refl refl refl refl refl]
  show ?thesis
    by (simp add: run provider_getDerivedKeys_def consumer_getDerivedKeys_def
        length_KeySchedule [OF hlen])
qed

theorem honest_run_key_agreement_witness:
  "SecureProvider_new demo_rt [3] (\<lambda>n. replicate n 1) = Inr demo_p0
   \<and> SecureConsumer_new [5] (\<lambda>n. replicate n 2) = Inr demo_c0
   \<and> (\<forall>b. rt_fromBase64 demo_rt (rt_toBase64 demo_rt b) = b)
   \<and> rt_JSON_parse demo_rt (startHandshake demo_rt demo_p0) =
       Some (PObject (handshake_init_message demo_rt demo_p0))
   \<and> rt_computeSecret demo_rt (p_ecdh demo_p0) (rt_getPublicKey demo_rt (c_ecdh demo_c0)) =
       Some [15]
   \<and> rt_computeSecret demo_rt (c_ecdh demo_c0) (rt_getPublicKey demo_rt (p_ecdh demo_p0)) =
       Some [15]
   \<and> (\<forall>key data. length (rt_hmac demo_rt key data) = 32)
   \<and> (\<exists>kp kc.
           provider_getDerivedKeys (fst (fst (honest_run demo_rt demo_p0 demo_c0))) = Some kp
         \<and> consumer_getDerivedKeys (snd (fst (honest_run demo_rt demo_p0 demo_c0))) = Some kc
         \<and> encryptionKey kp = encryptionKey kc
         \<and> authenticationKey kp = authenticationKey kc
         \<and> length (encryptionKey kp) = 32 \<and> length (authenticationKey kp) = 32)"
  using demo_fresh_provider demo_fresh_consumer demo_rt_base64 demo_rt_json demo_rt_ecdh
    demo_rt_hmac_length
    honest_run_key_agreement [OF demo_rt_base64 demo_rt_json demo_rt_ecdh demo_rt_hmac_length]
  by (intro conjI)

section \<open>getDerivedKeys\<close>

text \<open>
  Claim C2. In every state of SecureProvider and of SecureConsumer (reachable or not) in
  which the handshake is not confirmed, \<open>getDerivedKeys()\<close> returns null; and whenever
  it returns a value, the handshake is confirmed and the value consists of exactly the
  encryption and the authentication key of the stored bundle. The returned record has no
  third field, so the confirmation key is never part of it.
\<close>

theorem getDerivedKeys_only_when_confirmed:
  "(\<not> p_confirmed p \<longrightarrow> provider_getDerivedKeys p = None)
   \<and> (\<forall>k. provider_getDerivedKeys p = Some k \<longrightarrow>
          p_confirmed p \<and>
          (\<exists>dk. p_derivedKeys p = Some dk \<and>
                k = \<lparr>encryptionKey = encryptionKey dk,
                     authenticationKey = authenticationKey dk\<rparr>))
   \<and> (\<not> c_confirmed c \<longrightarrow> consumer_getDerivedKeys c = None)
   \<and> (\<forall>k. consumer_getDerivedKeys c = Some k \<longrightarrow>
          c_confirmed c \<and>
          (\<exists>dk. c_derivedKeys c = Some dk \<and>
                k = \<lparr>encryptionKey = encryptionKey dk,
                     authenticationKey = authenticationKey dk\<rparr>))"
  by (auto simp: provider_getDerivedKeys_def consumer_getDerivedKeys_def
      split: option.splits if_splits)

theorem getDerivedKeys_only_when_confirmed_witness:
  "\<not> p_confirmed demo_p0 \<and> provider_getDerivedKeys demo_p0 = None
   \<and> \<not> c_confirmed demo_c0 \<and> consumer_getDerivedKeys demo_c0 = None
   \<and> provider_getDerivedKeys demo_p2 \<noteq> None \<and> p_confirmed demo_p2
   \<and> consumer_getDerivedKeys demo_c2 \<noteq> None \<and> c_confirmed demo_c2"
proof -
  have n: "\<not> p_confirmed demo_p0" "\<not> c_confirmed demo_c0"
    by (simp_all add: demo_p0_def demo_c0_def)
  have k: "provider_getDerivedKeys demo_p2 \<noteq> None" "consumer_getDerivedKeys demo_c2 \<noteq> None"
    by (simp_all add: provider_getDerivedKeys_def consumer_getDerivedKeys_def
        demo_p2_value demo_p1_value demo_c2_value demo_c1_value)
  show ?thesis
    using n k getDerivedKeys_only_when_confirmed [of demo_p0 demo_c0]
      getDerivedKeys_only_when_confirmed [of demo_p2 demo_c2]
    by auto
qed

section \<open>Dispatch on the message type\<close>

text \<open>
  Claim C3, as the code has it. Neither peer keeps a Failed state and neither checks a
  message against an expected next type; each dispatches on the message type alone.
  For every peer state, a message that is not an object of one of the two types that
  peer dispatches on is answered with an error result and leaves the state as it was:
  a string that does not parse with \<open>Invalid message format\<close>, \<open>null\<close> (the JSON text
  or the argument) with the engine's TypeError, and every other message whose type is
  none of the two with \<open>Unknown message type\<close>. And every SecureConsumer state,
  whatever it handled before, answers a well-formed handshake-init with a
  handshake-response.
\<close>

theorem dispatch_on_type_alone:
  "(normalizeMessage rt msg = Inl e \<longrightarrow>
      e = Error ''Invalid message format'' \<and>
      handleMessage rt c msg = (c, consumer_error e) \<and>
      handleResponse rt p msg = (p, provider_error e))
   \<and> (normalizeMessage rt msg = Inr PNull \<longrightarrow>
      handleMessage rt c msg = (c, consumer_error TypeError) \<and>
      handleResponse rt p msg = (p, provider_error TypeError))
   \<and> (normalizeMessage rt msg = Inr (PObject data) \<and>
      m_type data \<noteq> Some ''handshake-init'' \<and>
      m_type data \<noteq> Some ''key-confirmation-request'' \<longrightarrow>
        handleMessage rt c msg = (c, consumer_error (Error ''Unknown message type'')))
   \<and> (normalizeMessage rt msg = Inr (PObject data) \<and>
      m_type data \<noteq> Some ''handshake-response'' \<and>
      m_type data \<noteq> Some ''key-confirmation'' \<longrightarrow>
        handleResponse rt p msg = (p, provider_error (Error ''Unknown message type'')))
   \<and> (normalizeMessage rt msg = Inr (PObject data) \<and>
      m_type data = Some ''handshake-init'' \<and> m_version data = Some 1 \<and>
      includes_opt (m_supportedCiphers data) ''aes-256-gcm'' \<and>
      includes_opt (m_supportedHashes data) ''sha256'' \<and>
      m_providerNonce data = Some pn \<and> m_publicKey data = Some pk \<and>
      rt_computeSecret rt (c_ecdh c) (rt_fromBase64 rt pk) = Some secret \<longrightarrow>
        cr_type (snd (handleMessage rt c msg)) = ''handshake-response'' \<and>
        cr_error (snd (handleMessage rt c msg)) = None)"
proof (intro conjI impI)
  assume n: "normalizeMessage rt msg = Inl e"
  then show "e = Error ''Invalid message format''"
    by (auto simp: normalizeMessage_def split: raw.splits option.splits)
  from n show "handleMessage rt c msg = (c, consumer_error e)"
    by (simp add: handleMessage_def)
  from n show "handleResponse rt p msg = (p, provider_error e)"
    by (simp add: handleResponse_def)
next
  assume n: "normalizeMessage rt msg = Inr PNull"
  then show "handleMessage rt c msg = (c, consumer_error TypeError)"
    by (simp add: handleMessage_def)
  from n show "handleResponse rt p msg = (p, provider_error TypeError)"
    by (simp add: handleResponse_def)
next
  assume "normalizeMessage rt msg = Inr (PObject data) \<and>
          m_type data \<noteq> Some ''handshake-init'' \<and>
          m_type data \<noteq> Some ''key-confirmation-request''"
  then show "handleMessage rt c msg = (c, consumer_error (Error ''Unknown message type''))"
    by (simp add: handleMessage_def)
next
  assume "normalizeMessage rt msg = Inr (PObject data) \<and>
          m_type data \<noteq> Some ''handshake-response'' \<and>
          m_type data \<noteq> Some ''key-confirmation''"
  then show "handleResponse rt p msg = (p, provider_error (Error ''Unknown message type''))"
    by (simp add: handleResponse_def)
next
  assume h: "normalizeMessage rt msg = Inr (PObject data) \<and>
          m_type data = Some ''handshake-init'' \<and> m_version data = Some 1 \<and>
          includes_opt (m_supportedCiphers data) ''aes-256-gcm'' \<and>
          includes_opt (m_supportedHashes data) ''sha256'' \<and>
          m_providerNonce data = Some pn \<and> m_publicKey data = Some pk \<and>
          rt_computeSecret rt (c_ecdh c) (rt_fromBase64 rt pk) = Some secret"
  then have ok: "\<exists>s' r. consumer_processHandshakeInit rt c data = (s', Inr r) \<and>
                  cr_type r = ''handshake-response'' \<and> cr_error r = None"
    by (simp add: consumer_processHandshakeInit_ok [where pn = pn and pk = pk
          and secret = secret])
  then show "cr_type (snd (handleMessage rt c msg)) = ''handshake-response''"
    using h by (auto simp: handleMessage_def)
  from ok show "cr_error (snd (handleMessage rt c msg)) = None"
    using h by (auto simp: handleMessage_def)
qed

lemma demo_parse_null: "rt_JSON_parse demo_rt ''null'' = Some PNull"
  by (simp add: demo_rt_def demo_rt0_def)

lemma demo_parse_garbage: "rt_JSON_parse demo_rt ''not-json{'' = None"
  by (simp add: demo_rt_def demo_rt0_def)

theorem dispatch_on_type_alone_witness:
  "normalizeMessage demo_rt (RawString ''not-json{'') = Inl (Error ''Invalid message format'')
   \<and> handleMessage demo_rt demo_c1 (RawString ''not-json{'') =
       (demo_c1, consumer_error (Error ''Invalid message format''))
   \<and> normalizeMessage demo_rt (RawString ''null'') = Inr PNull
   \<and> handleMessage demo_rt demo_c1 (RawString ''null'') = (demo_c1, consumer_error TypeError)
   \<and> handleResponse demo_rt demo_p1 (RawString ''null'') = (demo_p1, provider_error TypeError)
   \<and> normalizeMessage demo_rt (RawObject empty_message) = Inr (PObject empty_message)
   \<and> handleMessage demo_rt demo_c1 (RawObject empty_message) =
       (demo_c1, consumer_error (Error ''Unknown message type''))
   \<and> handleResponse demo_rt demo_p1 (RawObject empty_message) =
       (demo_p1, provider_error (Error ''Unknown message type''))
   \<and> normalizeMessage demo_rt (RawString (startHandshake demo_rt demo_p0)) =
       Inr (PObject (handshake_init_message demo_rt demo_p0))
   \<and> cr_type (snd (handleMessage demo_rt demo_c1 (RawString (startHandshake demo_rt demo_p0)))) =
       ''handshake-response''"
proof -
  have n0: "normalizeMessage demo_rt (RawString ''not-json{'') =
              Inl (Error ''Invalid message format'')"
    by (simp add: normalizeMessage_def demo_parse_garbage)
  have nn: "normalizeMessage demo_rt (RawString ''null'') = Inr PNull"
    by (simp add: normalizeMessage_def demo_parse_null)
  have n1: "normalizeMessage demo_rt (RawObject empty_message) = Inr (PObject empty_message)"
    by (simp add: normalizeMessage_def)
  have n2: "normalizeMessage demo_rt (RawString (startHandshake demo_rt demo_p0)) =
              Inr (PObject (handshake_init_message demo_rt demo_p0))"
    by (simp add: normalizeMessage_def demo_rt_json)
  have secret: "rt_computeSecret demo_rt (c_ecdh demo_c1)
                  (rt_fromBase64 demo_rt (rt_toBase64 demo_rt
                     (rt_getPublicKey demo_rt (p_ecdh demo_p0)))) = Some [15]"
    using demo_rt_ecdh(2) demo_rt_base64 by (simp add: demo_c1_value)
  have t: "m_type empty_message = None" by (simp add: empty_message_def)
  note w0 = dispatch_on_type_alone [where rt = demo_rt and msg = "RawString ''not-json{''"
      and e = "Error ''Invalid message format''" and c = demo_c1 and p = demo_p1,
      THEN conjunct1, rule_format, OF n0]
  note wn = dispatch_on_type_alone [where rt = demo_rt and msg = "RawString ''null''"
      and c = demo_c1 and p = demo_p1, THEN conjunct2, THEN conjunct1, rule_format, OF nn]
  note w1 = dispatch_on_type_alone [where rt = demo_rt and msg = "RawObject empty_message"
      and data = empty_message and c = demo_c1 and p = demo_p1]
  note w2 = dispatch_on_type_alone [where rt = demo_rt
      and msg = "RawString (startHandshake demo_rt demo_p0)"
      and data = "handshake_init_message demo_rt demo_p0" and c = demo_c1
      and pn = "rt_toBase64 demo_rt (p_providerNonce demo_p0)"
      and pk = "rt_toBase64 demo_rt (rt_getPublicKey demo_rt (p_ecdh demo_p0))"
      and secret = "[15]"]
  have u1: "handleMessage demo_rt demo_c1 (RawObject empty_message) =
       (demo_c1, consumer_error (Error ''Unknown message type''))"
    using w1 n1 t by simp
  have u2: "handleResponse demo_rt demo_p1 (RawObject empty_message) =
       (demo_p1, provider_error (Error ''Unknown message type''))"
    using w1 n1 t by simp
  have u3: "cr_type (snd (handleMessage demo_rt demo_c1
              (RawString (startHandshake demo_rt demo_p0)))) = ''handshake-response''"
    using w2 n2 secret
    by (simp add: handshake_init_message_def empty_message_def includes_opt_def)
  show ?thesis
    using n0 w0 nn wn n1 u1 u2 n2 u3 by (intro conjI) simp_all
qed

text \<open>
  The claim as stated fails: a consumer that has processed a handshake-init processes
  a second one, and a consumer that has returned an error processes the next message.
\<close>

theorem failed_state_counterexample:
  "cr_type (snd (handleMessage demo_rt demo_c0 (RawString (startHandshake demo_rt demo_p0)))) =
     ''handshake-response''
   \<and> cr_type (snd (handleMessage demo_rt demo_c1 (RawString (startHandshake demo_rt demo_p0)))) =
     ''handshake-response''
   \<and> cr_type (snd (handleMessage demo_rt demo_c0 (RawObject empty_message))) = ''error''
   \<and> cr_type (snd (handleMessage demo_rt
        (fst (handleMessage demo_rt demo_c0 (RawObject empty_message)))
        (RawString (startHandshake demo_rt demo_p0)))) = ''handshake-response''"
proof -
  have e: "handleMessage demo_rt demo_c0 (RawObject empty_message) =
             (demo_c0, consumer_error (Error ''Unknown message type''))"
    by (simp add: handleMessage_def normalizeMessage_def empty_message_def)
  have c1: "c_ecdh demo_c1 = c_ecdh demo_c0" by (simp add: demo_c1_value)
  show ?thesis
    by (simp add: e demo_init_any_consumer(1) [OF refl] demo_init_any_consumer(1) [OF c1]
        consumer_error_def)
qed

section \<open>Session identifier\<close>

lemma provider_sessionId_kept: "p_sessionId (fst (handleResponse rt p msg)) = p_sessionId p"
  by (auto simp: handleResponse_def provider_processHandshakeResponse_def
      provider_processKeyConfirmation_def provider_deriveKeys_def Let_def HKDF_derive_32
      split: sum.splits option.splits prod.splits if_splits parsed.splits)

text \<open>
  Claim C4, as the code has it. SecureProvider answers a HANDSHAKE_RESPONSE whose
  sessionId differs from its own with the error \<open>Session ID mismatch\<close> and leaves its
  state as it was (no Failed state is entered); its own sessionId is the one generated at
  construction, since no message changes it.
\<close>

theorem handshake_response_session_id_checked:
  assumes "normalizeMessage rt msg = Inr (PObject data)"
    and "m_type data = Some ''handshake-response''"
    and "m_sessionId data \<noteq> Some (p_sessionId p)"
  shows "handleResponse rt p msg = (p, provider_error (Error ''Session ID mismatch''))
       \<and> p_sessionId (fst (handleResponse rt p other)) = p_sessionId p"
proof
  show "handleResponse rt p msg = (p, provider_error (Error ''Session ID mismatch''))"
    using assms by (simp add: handleResponse_def provider_processHandshakeResponse_def)
  show "p_sessionId (fst (handleResponse rt p other)) = p_sessionId p"
    by (rule provider_sessionId_kept)
qed

theorem handshake_response_session_id_checked_witness:
  "p_sessionId demo_p0 \<noteq> ''different-session-id''
   \<and> handleResponse demo_rt demo_p0 (with_sessionId ''different-session-id'' demo_m1) =
       (demo_p0, provider_error (Error ''Session ID mismatch''))"
proof -
  let ?m = "empty_message
        \<lparr>m_type := Some ''handshake-response'', m_sessionId := Some ''different-session-id'',
         m_publicKey := Some (rt_toBase64 demo_rt (rt_getPublicKey demo_rt (c_ecdh demo_c0))),
         m_consumerNonce := Some (rt_toBase64 demo_rt (c_consumerNonce demo_c0)),
         m_selectedCipher := Some ''aes-256-gcm'', m_selectedHash := Some ''sha256''\<rparr>"
  have w: "with_sessionId ''different-session-id'' demo_m1 = RawObject ?m"
    by (simp add: with_sessionId_def demo_m1_value)
  have n: "normalizeMessage demo_rt (RawObject ?m) = Inr (PObject ?m)"
    by (simp add: normalizeMessage_def)
  have t: "m_type ?m = Some ''handshake-response''" by simp
  have d: "m_sessionId ?m \<noteq> Some (p_sessionId demo_p0)"
    using demo_sessionId by simp
  show ?thesis
    using demo_sessionId handshake_response_session_id_checked [OF n t d]
    by (simp add: w)
qed

text \<open>
  The claim as stated fails twice: a KEY_CONFIRMATION carrying another sessionId is
  accepted and confirms the handshake, and after a rejected HANDSHAKE_RESPONSE the
  provider still processes the right one.
\<close>

theorem session_id_counterexample:
  "p_sessionId demo_p1 \<noteq> ''different-session-id''
   \<and> pr_type (snd (handleResponse demo_rt demo_p1
        (with_sessionId ''different-session-id'' demo_m3))) = ''handshake-complete''
   \<and> p_confirmed (fst (handleResponse demo_rt demo_p1
        (with_sessionId ''different-session-id'' demo_m3)))
   \<and> pr_type (snd (handleResponse demo_rt demo_p0
        (with_sessionId ''different-session-id'' demo_m1))) = ''error''
   \<and> pr_type (snd (handleResponse demo_rt
        (fst (handleResponse demo_rt demo_p0 (with_sessionId ''different-session-id'' demo_m1)))
        (deliver demo_m1))) = ''send-confirmation''"
proof -
  let ?dk = "KeySchedule (rt_hmac demo_rt) [15] (p_providerNonce demo_p0)
               (c_consumerNonce demo_c0)"
  let ?macR = "rt_toBase64 demo_rt
        (rt_hmac demo_rt (confirmationKey ?dk)
           (c_consumerNonce demo_c0 @ p_providerNonce demo_p0 @
            rt_getPublicKey demo_rt (c_ecdh demo_c0) @
            rt_getPublicKey demo_rt (p_ecdh demo_p0)))"
  let ?pk = "rt_toBase64 demo_rt (rt_getPublicKey demo_rt (c_ecdh demo_c0))"
  let ?conf = "empty_message
     \<lparr>m_type := Some ''key-confirmation'', m_sessionId := Some ''different-session-id'',
      m_publicKey := Some ?pk, m_confirmationMac := Some ?macR\<rparr>"
  have a: "p_sessionId demo_p1 \<noteq> ''different-session-id''"
    using demo_sessionId by (simp add: demo_p1_value)
  have w3: "with_sessionId ''different-session-id'' demo_m3 = RawObject ?conf"
    by (simp add: with_sessionId_def demo_m3_value)
  have b: "handleResponse demo_rt demo_p1 (RawObject ?conf) =
             (demo_p1\<lparr>p_confirmed := True\<rparr>,
              \<lparr>pr_type = ''handshake-complete'', pr_confirmed = True, pr_error = None,
               pr_confirmationMac = None\<rparr>)"
    using demo_rt_base64
    by (subst handleResponse_key_confirmation [where mac = ?macR and pk = ?pk
          and cn = "c_consumerNonce demo_c0" and dk = ?dk])
       (simp_all add: demo_p1_value)
  have c: "handleResponse demo_rt demo_p0 (with_sessionId ''different-session-id'' demo_m1) =
             (demo_p0, provider_error (Error ''Session ID mismatch''))"
    using demo_sessionId
    by (simp add: with_sessionId_def demo_m1_value handleResponse_def normalizeMessage_def
        provider_processHandshakeResponse_def)
  show ?thesis
    by (simp add: a w3 b c provider_error_def demo_response_any_provider(1) [OF refl refl])
qed

section \<open>Verification of the confirmation MACs\<close>

text \<open>
  Claim C5, as the code has it. SecureConsumer verifies the MAC of a KEY_CONFIRM_REQUEST
  against a MAC recomputed from stored state alone: the provider nonce and public key
  stored at the handshake-init, its own nonce and public key, and the stored confirmation
  key; whatever else the request carries is not read. SecureProvider verifies the MAC of
  a KEY_CONFIRMATION against a MAC recomputed from its stored nonces, its own public key
  and the stored confirmation key together with the \<open>publicKey\<close> field of the
  KEY_CONFIRMATION being verified. Both compare with \<open>constantTimeCompare\<close>, which
  holds exactly of equal buffers, and a mismatch is answered with the
  key-confirmation-failed error and leaves the state as it was.
\<close>

theorem key_confirmation_verification:
  assumes "c_providerNonce c = Some pn" and "c_providerPublicKey c = Some ppk"
    and "c_derivedKeys c = Some cdk"
    and "p_consumerNonce p = Some cn" and "p_derivedKeys p = Some pdk"
    and "normalizeMessage rt req_msg = Inr (PObject req)"
    and "m_type req = Some ''key-confirmation-request''"
    and "m_confirmationMac req = Some macI"
    and "normalizeMessage rt conf_msg = Inr (PObject conf)"
    and "m_type conf = Some ''key-confirmation''"
    and "m_confirmationMac conf = Some macR" and "m_publicKey conf = Some pk"
  shows "handleMessage rt c req_msg =
           (if constantTimeCompare (rt_fromBase64 rt macI)
                 (rt_hmac rt (confirmationKey cdk)
                    (pn @ c_consumerNonce c @ ppk @ rt_getPublicKey rt (c_ecdh c)))
            then (c\<lparr>c_confirmed := True\<rparr>,
                  \<lparr>cr_type = ''key-confirmation'',
                   cr_response = Some (empty_message
                     \<lparr>m_type := Some ''key-confirmation'',
                      m_sessionId := c_sessionId c,
                      m_publicKey := Some (rt_toBase64 rt (rt_getPublicKey rt (c_ecdh c))),
                      m_confirmationMac := Some (rt_toBase64 rt
                        (rt_hmac rt (confirmationKey cdk)
                           (c_consumerNonce c @ pn @ rt_getPublicKey rt (c_ecdh c) @ ppk)))\<rparr>),
                   cr_confirmed = True, cr_error = None\<rparr>)
            else (c, consumer_error
                       (Error ''Provider key confirmation failed - potential MITM attack'')))
       \<and> handleResponse rt p conf_msg =
           (if constantTimeCompare (rt_fromBase64 rt macR)
                 (rt_hmac rt (confirmationKey pdk)
                    (cn @ p_providerNonce p @ rt_fromBase64 rt pk @
                     rt_getPublicKey rt (p_ecdh p)))
            then (p\<lparr>p_confirmed := True\<rparr>,
                  \<lparr>pr_type = ''handshake-complete'', pr_confirmed = True, pr_error = None,
                   pr_confirmationMac = None\<rparr>)
            else (p, provider_error (Error ''Key confirmation failed - potential MITM attack'')))
       \<and> constantTimeCompare a b = (a = b)"
proof (intro conjI)
  have "m_type req \<noteq> Some ''handshake-init''"
    using assms(7) by simp
  then show "handleMessage rt c req_msg =
           (if constantTimeCompare (rt_fromBase64 rt macI)
                 (rt_hmac rt (confirmationKey cdk)
                    (pn @ c_consumerNonce c @ ppk @ rt_getPublicKey rt (c_ecdh c)))
            then (c\<lparr>c_confirmed := True\<rparr>,
                  \<lparr>cr_type = ''key-confirmation'',
                   cr_response = Some (empty_message
                     \<lparr>m_type := Some ''key-confirmation'',
                      m_sessionId := c_sessionId c,
                      m_publicKey := Some (rt_toBase64 rt (rt_getPublicKey rt (c_ecdh c))),
                      m_confirmationMac := Some (rt_toBase64 rt
                        (rt_hmac rt (confirmationKey cdk)
                           (c_consumerNonce c @ pn @ rt_getPublicKey rt (c_ecdh c) @ ppk)))\<rparr>),
                   cr_confirmed = True, cr_error = None\<rparr>)
            else (c, consumer_error
                       (Error ''Provider key confirmation failed - potential MITM attack'')))"
    using assms(6,7)
    by (simp add: handleMessage_def
        consumer_processKeyConfirmationRequest_eq [OF assms(8) assms(1) assms(2) assms(3)])
  have "m_type conf \<noteq> Some ''handshake-response''"
    using assms(10) by simp
  then show "handleResponse rt p conf_msg =
           (if constantTimeCompare (rt_fromBase64 rt macR)
                 (rt_hmac rt (confirmationKey pdk)
                    (cn @ p_providerNonce p @ rt_fromBase64 rt pk @
                     rt_getPublicKey rt (p_ecdh p)))
            then (p\<lparr>p_confirmed := True\<rparr>,
                  \<lparr>pr_type = ''handshake-complete'', pr_confirmed = True, pr_error = None,
                   pr_confirmationMac = None\<rparr>)
            else (p, provider_error (Error ''Key confirmation failed - potential MITM attack'')))"
    using assms(9,10)
    by (simp add: handleResponse_def
        provider_processKeyConfirmation_eq [OF assms(11) assms(12) assms(4) assms(5)])
  show "constantTimeCompare a b = (a = b)"
    by (rule constantTimeCompare_iff)
qed

lemma demo_macs_explicit:
  "rt_hmac demo_rt
     (confirmationKey (KeySchedule (rt_hmac demo_rt) [15] (p_providerNonce demo_p0)
        (c_consumerNonce demo_c0)))
     (p_providerNonce demo_p0 @ c_consumerNonce demo_c0 @
      rt_getPublicKey demo_rt (p_ecdh demo_p0) @ rt_getPublicKey demo_rt (c_ecdh demo_c0)) =
   demo_hmac demo_K (replicate 32 1 @ replicate 32 2 @ [3] @ [5])"
  "rt_hmac demo_rt
     (confirmationKey (KeySchedule (rt_hmac demo_rt) [15] (p_providerNonce demo_p0)
        (c_consumerNonce demo_c0)))
     (c_consumerNonce demo_c0 @ p_providerNonce demo_p0 @
      rt_getPublicKey demo_rt (c_ecdh demo_c0) @ rt_getPublicKey demo_rt (p_ecdh demo_p0)) =
   demo_hmac demo_K (replicate 32 2 @ replicate 32 1 @ [5] @ [3])"
  by (simp_all only: demo_rt_fields demo_K_def demo_p0_def demo_c0_def demo_getPublicKey_def
      SecureProvider.simps SecureConsumer.simps)

lemma demo_macs_differ:
  "demo_hmac demo_K (replicate 32 2 @ replicate 32 1 @ [5] @ [3]) \<noteq>
   demo_hmac demo_K (replicate 32 1 @ replicate 32 2 @ [3] @ [5])"
proof
  assume "demo_hmac demo_K (replicate 32 2 @ replicate 32 1 @ [5] @ [3]) =
          demo_hmac demo_K (replicate 32 1 @ replicate 32 2 @ [3] @ [5])"
  then have "hd (replicate 32 (2 :: 8 word) @ replicate 32 1 @ [5] @ [3]) =
             hd (replicate 32 (1 :: 8 word) @ replicate 32 2 @ [3] @ [5])"
    by (rule demo_hmac_hd [rotated 2]) simp_all
  then show False by simp
qed

theorem key_confirmation_verification_witness:
  "c_providerNonce demo_c1 = Some (replicate 32 1)
   \<and> c_providerPublicKey demo_c1 = Some [3]
   \<and> c_derivedKeys demo_c1 = p_derivedKeys demo_p1
   \<and> p_derivedKeys demo_p1 \<noteq> None
   \<and> p_consumerNonce demo_p1 = Some (replicate 32 2)
   \<and> handleMessage demo_rt demo_c1 (RawObject (demo_request demo_macI)) =
       (demo_c1\<lparr>c_confirmed := True\<rparr>,
        \<lparr>cr_type = ''key-confirmation'',
         cr_response = Some (empty_message
           \<lparr>m_type := Some ''key-confirmation'', m_sessionId := c_sessionId demo_c1,
            m_publicKey := Some (demo_toBase64 [5]),
            m_confirmationMac := Some demo_macR\<rparr>),
         cr_confirmed = True, cr_error = None\<rparr>)
   \<and> length (demo_fromBase64 demo_macR) = 32
   \<and> handleMessage demo_rt demo_c1 (RawObject (demo_request demo_macR)) =
       (demo_c1, consumer_error
                   (Error ''Provider key confirmation failed - potential MITM attack''))
   \<and> handleResponse demo_rt demo_p1 (deliver demo_m3) =
       (demo_p1\<lparr>p_confirmed := True\<rparr>,
        \<lparr>pr_type = ''handshake-complete'', pr_confirmed = True, pr_error = None,
         pr_confirmationMac = None\<rparr>)"
proof -
  let ?dk = "KeySchedule (rt_hmac demo_rt) [15] (p_providerNonce demo_p0)
               (c_consumerNonce demo_c0)"
  let ?MR = "demo_hmac demo_K (replicate 32 2 @ replicate 32 1 @ [5] @ [3])"
  let ?MI = "demo_hmac demo_K (replicate 32 1 @ replicate 32 2 @ [3] @ [5])"
  let ?conf = "empty_message
     \<lparr>m_type := Some ''key-confirmation'', m_sessionId := Some (p_sessionId demo_p0),
      m_publicKey := Some (demo_toBase64 [5]), m_confirmationMac := Some demo_macR\<rparr>"
  have c1: "c_providerNonce demo_c1 = Some (replicate 32 1)"
    and c2: "c_providerPublicKey demo_c1 = Some [3]"
    and c3: "c_derivedKeys demo_c1 = Some ?dk"
    and c4: "c_consumerNonce demo_c1 = replicate 32 2" "c_ecdh demo_c1 = [5]"
    by (simp_all add: demo_c1_value demo_p0_def demo_c0_def demo_rt_fields
        demo_getPublicKey_def)
  have p1: "p_consumerNonce demo_p1 = Some (replicate 32 2)"
    and p2: "p_derivedKeys demo_p1 = Some ?dk"
    and p3: "p_providerNonce demo_p1 = replicate 32 1" "p_ecdh demo_p1 = [3]"
    by (simp_all add: demo_p1_value demo_p0_def demo_c0_def)
  have K2: "confirmationKey (KeySchedule demo_hmac [15] (p_providerNonce demo_p0)
               (c_consumerNonce demo_c0)) = demo_K"
    by (simp only: demo_K_def demo_p0_def demo_c0_def SecureProvider.simps
        SecureConsumer.simps)
  have dI2: "demo_fromBase64 demo_macI = ?MI" and dR2: "demo_fromBase64 demo_macR = ?MR"
    and pkC2: "demo_fromBase64 (demo_toBase64 [5]) = [5]"
    by (simp_all only: demo_macI_def demo_macR_def demo_base64_roundtrip)
  have d3: "deliver demo_m3 = RawObject ?conf"
    unfolding demo_m3_value demo_macs_explicit demo_macR_def
    by (simp add: deliver_def demo_rt_fields demo_c0_def demo_getPublicKey_def)
  have nr: "\<And>mac. normalizeMessage demo_rt (RawObject (demo_request mac)) =
              Inr (PObject (demo_request mac))"
    and nc: "normalizeMessage demo_rt (RawObject ?conf) = Inr (PObject ?conf)"
    by (simp_all add: normalizeMessage_def)
  have r1: "\<And>mac. m_type (demo_request mac) = Some ''key-confirmation-request''"
    and r2: "\<And>mac. m_confirmationMac (demo_request mac) = Some mac"
    by (simp_all add: demo_request_def key_confirmation_request_def)
  have m1: "m_type ?conf = Some ''key-confirmation''"
    and m2: "m_confirmationMac ?conf = Some demo_macR"
    and m3: "m_publicKey ?conf = Some (demo_toBase64 [5])"
    by simp_all
  have len: "length (demo_fromBase64 demo_macR) = 32"
    by (simp only: demo_macR_def demo_base64_roundtrip length_demo_hmac)
  note wI = key_confirmation_verification [OF c1 c2 c3 p1 p2 nr [of demo_macI]
      r1 [of demo_macI] r2 [of demo_macI] nc m1 m2 m3]
  note wR = key_confirmation_verification [OF c1 c2 c3 p1 p2 nr [of demo_macR]
      r1 [of demo_macR] r2 [of demo_macR] nc m1 m2 m3]
  have good: "handleMessage demo_rt demo_c1 (RawObject (demo_request demo_macI)) =
       (demo_c1\<lparr>c_confirmed := True\<rparr>,
        \<lparr>cr_type = ''key-confirmation'',
         cr_response = Some (empty_message
           \<lparr>m_type := Some ''key-confirmation'', m_sessionId := c_sessionId demo_c1,
            m_publicKey := Some (demo_toBase64 [5]),
            m_confirmationMac := Some demo_macR\<rparr>),
         cr_confirmed = True, cr_error = None\<rparr>)"
    using wI [THEN conjunct1]
    by (simp add: constantTimeCompare_iff dI2 K2 c4 demo_rt_fields demo_getPublicKey_def
        demo_macR_def)
  have bad: "handleMessage demo_rt demo_c1 (RawObject (demo_request demo_macR)) =
       (demo_c1, consumer_error
                   (Error ''Provider key confirmation failed - potential MITM attack''))"
    using wR [THEN conjunct1] demo_macs_differ
    by (simp add: constantTimeCompare_iff dR2 K2 c4 demo_rt_fields demo_getPublicKey_def)
  have prov: "handleResponse demo_rt demo_p1 (deliver demo_m3) =
       (demo_p1\<lparr>p_confirmed := True\<rparr>,
        \<lparr>pr_type = ''handshake-complete'', pr_confirmed = True, pr_error = None,
         pr_confirmationMac = None\<rparr>)"
    using wI [THEN conjunct2, THEN conjunct1]
    by (simp add: constantTimeCompare_iff dR2 pkC2 K2 p3 d3 demo_rt_fields
        demo_getPublicKey_def)
  show ?thesis
    using c1 c2 c3 p1 p2 good len bad prov by (intro conjI) simp_all
qed

text \<open>
  The claim as stated fails for the provider: in one and the same state, two
  KEY_CONFIRMATION messages carrying the same \<open>confirmationMac\<close> and differing only in
  their \<open>publicKey\<close> field are verified differently, so the expected MAC depends on a
  field of the message being verified.
\<close>

theorem mac_from_message_counterexample:
  "pr_type (snd (handleResponse demo_rt demo_p1 (deliver demo_m3))) = ''handshake-complete''
   \<and> pr_type (snd (handleResponse demo_rt demo_p1
        (with_publicKey (rt_toBase64 demo_rt [7]) demo_m3))) = ''error''
   \<and> pr_error (snd (handleResponse demo_rt demo_p1
        (with_publicKey (rt_toBase64 demo_rt [7]) demo_m3))) =
       Some (Error ''Key confirmation failed - potential MITM attack'')"
proof -
  let ?dk = "KeySchedule (rt_hmac demo_rt) [15] (p_providerNonce demo_p0)
               (c_consumerNonce demo_c0)"
  let ?macR = "rt_toBase64 demo_rt
        (rt_hmac demo_rt (confirmationKey ?dk)
           (c_consumerNonce demo_c0 @ p_providerNonce demo_p0 @
            rt_getPublicKey demo_rt (c_ecdh demo_c0) @
            rt_getPublicKey demo_rt (p_ecdh demo_p0)))"
  let ?pk = "rt_toBase64 demo_rt (rt_getPublicKey demo_rt (c_ecdh demo_c0))"
  let ?conf = "empty_message
     \<lparr>m_type := Some ''key-confirmation'', m_sessionId := Some (p_sessionId demo_p0),
      m_publicKey := Some ?pk, m_confirmationMac := Some ?macR\<rparr>"
  let ?conf' = "empty_message
     \<lparr>m_type := Some ''key-confirmation'', m_sessionId := Some (p_sessionId demo_p0),
      m_publicKey := Some (rt_toBase64 demo_rt [7]), m_confirmationMac := Some ?macR\<rparr>"
  have d: "deliver demo_m3 = RawObject ?conf"
    by (simp add: deliver_def demo_m3_value)
  have d': "with_publicKey (rt_toBase64 demo_rt [7]) demo_m3 = RawObject ?conf'"
    by (simp add: with_publicKey_def demo_m3_value)
  have ok: "handleResponse demo_rt demo_p1 (RawObject ?conf) =
             (demo_p1\<lparr>p_confirmed := True\<rparr>,
              \<lparr>pr_type = ''handshake-complete'', pr_confirmed = True, pr_error = None,
               pr_confirmationMac = None\<rparr>)"
    using demo_rt_base64
    by (subst handleResponse_key_confirmation [where mac = ?macR and pk = ?pk
          and cn = "c_consumerNonce demo_c0" and dk = ?dk])
       (simp_all add: demo_p1_value)
  have differ: "rt_hmac demo_rt (confirmationKey ?dk)
           (c_consumerNonce demo_c0 @ p_providerNonce demo_p0 @
            rt_getPublicKey demo_rt (c_ecdh demo_c0) @
            rt_getPublicKey demo_rt (p_ecdh demo_p0)) \<noteq>
        rt_hmac demo_rt (confirmationKey ?dk)
           (c_consumerNonce demo_c0 @ p_providerNonce demo_p0 @ [7] @
            rt_getPublicKey demo_rt (p_ecdh demo_p0))"
  proof
    assume "rt_hmac demo_rt (confirmationKey ?dk)
           (c_consumerNonce demo_c0 @ p_providerNonce demo_p0 @
            rt_getPublicKey demo_rt (c_ecdh demo_c0) @
            rt_getPublicKey demo_rt (p_ecdh demo_p0)) =
        rt_hmac demo_rt (confirmationKey ?dk)
           (c_consumerNonce demo_c0 @ p_providerNonce demo_p0 @ [7] @
            rt_getPublicKey demo_rt (p_ecdh demo_p0))"
    then have "sum_list (c_consumerNonce demo_c0 @ p_providerNonce demo_p0 @
            rt_getPublicKey demo_rt (c_ecdh demo_c0) @
            rt_getPublicKey demo_rt (p_ecdh demo_p0)) =
          sum_list (c_consumerNonce demo_c0 @ p_providerNonce demo_p0 @ [7] @
            rt_getPublicKey demo_rt (p_ecdh demo_p0))"
      unfolding demo_rt_fields by (rule demo_hmac_sum)
    then show False
      by (simp add: demo_rt_fields demo_getPublicKey_def demo_c0_def demo_p0_def)
  qed
  have bad: "handleResponse demo_rt demo_p1 (RawObject ?conf') =
             (demo_p1, provider_error (Error ''Key confirmation failed - potential MITM attack''))"
    using demo_rt_base64 differ
    by (subst handleResponse_key_confirmation [where mac = ?macR
          and pk = "rt_toBase64 demo_rt [7]" and cn = "c_consumerNonce demo_c0" and dk = ?dk])
       (simp_all add: demo_p1_value)
  show ?thesis
    unfolding d d' ok bad by (simp add: provider_error_def)
qed

section \<open>Layout of the confirmation MACs\<close>

lemma layouts_differ:
  assumes "pN \<noteq> cN" and "length pN = length (cN :: Buffer)"
  shows "pN @ cN @ pubP @ pubC \<noteq> cN @ pN @ pubC @ pubP"
  using assms by simp

text \<open>
  Claim C6. In the honest run the provider sends
  \<open>MAC_I = HMAC(K, providerNonce || consumerNonce || providerPublicKey || consumerPublicKey)\<close>
  and the consumer sends
  \<open>MAC_R = HMAC(K, consumerNonce || providerNonce || consumerPublicKey || providerPublicKey)\<close>,
  with \<open>K\<close> the confirmation key of the key schedule and each public key the buffer whose
  base64 form travels in the \<open>publicKey\<close> field. The two layouts are different byte
  strings when the peers' nonces differ, so that, HMAC not colliding on the two, the MACs
  differ, on the wire too, and each MAC is rejected when replayed in the opposite
  direction.
\<close>

theorem confirmation_mac_layouts:
  fixes rt :: runtime and p0 :: SecureProvider and c0 :: SecureConsumer and secret :: Buffer
  defines "pN \<equiv> p_providerNonce p0" and "cN \<equiv> c_consumerNonce c0"
    and "pubP \<equiv> rt_getPublicKey rt (p_ecdh p0)" and "pubC \<equiv> rt_getPublicKey rt (c_ecdh c0)"
  defines "K \<equiv> confirmationKey (KeySchedule (rt_hmac rt) secret pN cN)"
  defines "MAC_I \<equiv> rt_hmac rt K (pN @ cN @ pubP @ pubC)"
    and "MAC_R \<equiv> rt_hmac rt K (cN @ pN @ pubC @ pubP)"
    and "run \<equiv> honest_run rt p0 c0"
    and "c1 \<equiv> fst (handleMessage rt c0 (RawString (startHandshake rt p0)))"
  defines "p1 \<equiv> fst (handleResponse rt p0 (deliver (cr_response (fst (snd run)))))"
  assumes b64: "\<forall>b. rt_fromBase64 rt (rt_toBase64 rt b) = b"
    and json: "rt_JSON_parse rt (startHandshake rt p0) = Some (PObject (handshake_init_message rt p0))"
    and ecdh_p: "rt_computeSecret rt (p_ecdh p0) (rt_getPublicKey rt (c_ecdh c0)) = Some secret"
    and ecdh_c: "rt_computeSecret rt (c_ecdh c0) (rt_getPublicKey rt (p_ecdh p0)) = Some secret"
    and nonces: "pN \<noteq> cN" "length pN = length cN"
    and nocoll: "MAC_I = MAC_R \<longrightarrow> pN @ cN @ pubP @ pubC = cN @ pN @ pubC @ pubP"
  shows "m_publicKey (handshake_init_message rt p0) = Some (rt_toBase64 rt pubP)
       \<and> (\<exists>m1. cr_response (fst (snd run)) = Some m1 \<and>
                m_publicKey m1 = Some (rt_toBase64 rt pubC))
       \<and> pr_confirmationMac (fst (snd (snd run))) = Some (rt_toBase64 rt MAC_I)
       \<and> (\<exists>m3. cr_response (fst (snd (snd (snd run)))) = Some m3 \<and>
                m_confirmationMac m3 = Some (rt_toBase64 rt MAC_R) \<and>
                m_publicKey m3 = Some (rt_toBase64 rt pubC))
       \<and> pN @ cN @ pubP @ pubC \<noteq> cN @ pN @ pubC @ pubP
       \<and> MAC_I \<noteq> MAC_R
       \<and> rt_toBase64 rt MAC_I \<noteq> rt_toBase64 rt MAC_R
       \<and> handleResponse rt p1
            (RawObject (empty_message
               \<lparr>m_type := Some ''key-confirmation'', m_sessionId := Some (p_sessionId p0),
                m_publicKey := Some (rt_toBase64 rt pubC),
                m_confirmationMac := Some (rt_toBase64 rt MAC_I)\<rparr>)) =
           (p1, provider_error (Error ''Key confirmation failed - potential MITM attack''))
       \<and> handleMessage rt c1 (RawObject (key_confirmation_request (Some (rt_toBase64 rt MAC_R)))) =
           (c1, consumer_error
                  (Error ''Provider key confirmation failed - potential MITM attack''))"
proof -
  let ?dk = "KeySchedule (rt_hmac rt) secret pN cN"
  have run: "run =
    ((p0\<lparr>p_consumerNonce := Some cN, p_sharedSecret := Some secret,
         p_derivedKeys := Some ?dk, p_confirmed := True\<rparr>,
      c0\<lparr>c_sessionId := Some (p_sessionId p0), c_providerNonce := Some pN,
         c_providerPublicKey := Some pubP, c_sharedSecret := Some secret,
         c_derivedKeys := Some ?dk, c_confirmed := True\<rparr>),
     (\<lparr>cr_type = ''handshake-response'',
       cr_response = Some (empty_message
         \<lparr>m_type := Some ''handshake-response'', m_sessionId := Some (p_sessionId p0),
          m_publicKey := Some (rt_toBase64 rt pubC),
          m_consumerNonce := Some (rt_toBase64 rt cN),
          m_selectedCipher := Some ''aes-256-gcm'', m_selectedHash := Some ''sha256''\<rparr>),
       cr_confirmed = False, cr_error = None\<rparr>,
      \<lparr>pr_type = ''send-confirmation'', pr_confirmed = False, pr_error = None,
       pr_confirmationMac = Some (rt_toBase64 rt MAC_I)\<rparr>,
      \<lparr>cr_type = ''key-confirmation'',
       cr_response = Some (empty_message
         \<lparr>m_type := Some ''key-confirmation'', m_sessionId := Some (p_sessionId p0),
          m_publicKey := Some (rt_toBase64 rt pubC),
          m_confirmationMac := Some (rt_toBase64 rt MAC_R)\<rparr>),
       cr_confirmed = True, cr_error = None\<rparr>,
      \<lparr>pr_type = ''handshake-complete'', pr_confirmed = True, pr_error = None,
       pr_confirmationMac = None\<rparr>))"
    unfolding run_def
    by (rule honest_run_explicit [OF b64 json ecdh_p ecdh_c])
       (simp_all add: pN_def cN_def pubP_def pubC_def K_def MAC_I_def MAC_R_def)
  have c1: "c1 = c0\<lparr>c_sessionId := Some (p_sessionId p0), c_providerNonce := Some pN,
         c_providerPublicKey := Some pubP, c_sharedSecret := Some secret,
         c_derivedKeys := Some ?dk\<rparr>"
    unfolding c1_def
    by (simp add: honest_init_delivered [OF b64 json ecdh_c] pN_def cN_def pubP_def)
  have p1: "p1 = p0\<lparr>p_consumerNonce := Some cN, p_sharedSecret := Some secret,
         p_derivedKeys := Some ?dk\<rparr>"
    unfolding p1_def run
    by (simp add: deliver_def honest_response_delivered [OF b64 ecdh_p] pN_def cN_def pubC_def)
  have layouts: "pN @ cN @ pubP @ pubC \<noteq> cN @ pN @ pubC @ pubP"
    using nonces by (rule layouts_differ)
  with nocoll have macs: "MAC_I \<noteq> MAC_R" by blast
  have wire: "rt_toBase64 rt MAC_I \<noteq> rt_toBase64 rt MAC_R"
  proof
    assume "rt_toBase64 rt MAC_I = rt_toBase64 rt MAC_R"
    then have "rt_fromBase64 rt (rt_toBase64 rt MAC_I) = rt_fromBase64 rt (rt_toBase64 rt MAC_R)"
      by (rule arg_cong)
    with b64 macs show False by simp
  qed
  have replay_p: "handleResponse rt p1
            (RawObject (empty_message
               \<lparr>m_type := Some ''key-confirmation'', m_sessionId := Some (p_sessionId p0),
                m_publicKey := Some (rt_toBase64 rt pubC),
                m_confirmationMac := Some (rt_toBase64 rt MAC_I)\<rparr>)) =
           (p1, provider_error (Error ''Key confirmation failed - potential MITM attack''))"
    using b64 macs
    by (subst handleResponse_key_confirmation [where mac = "rt_toBase64 rt MAC_I"
          and pk = "rt_toBase64 rt pubC" and cn = cN and dk = ?dk])
       (simp_all add: p1 pN_def pubP_def K_def MAC_I_def MAC_R_def)
  have replay_c: "handleMessage rt c1
            (RawObject (key_confirmation_request (Some (rt_toBase64 rt MAC_R)))) =
           (c1, consumer_error
                  (Error ''Provider key confirmation failed - potential MITM attack''))"
    using b64 macs
    by (subst handleMessage_confirmation_request [where pn = pN and ppk = pubP and dk = ?dk])
       (simp_all add: c1 cN_def pubC_def K_def MAC_I_def MAC_R_def)
  have init: "m_publicKey (handshake_init_message rt p0) = Some (rt_toBase64 rt pubP)"
    by (simp add: handshake_init_message_def pubP_def)
  have r1: "\<exists>m1. cr_response (fst (snd run)) = Some m1 \<and>
                m_publicKey m1 = Some (rt_toBase64 rt pubC)"
    by (simp add: run)
  have r2: "pr_confirmationMac (fst (snd (snd run))) = Some (rt_toBase64 rt MAC_I)"
    by (simp add: run)
  have r3: "\<exists>m3. cr_response (fst (snd (snd (snd run)))) = Some m3 \<and>
                m_confirmationMac m3 = Some (rt_toBase64 rt MAC_R) \<and>
                m_publicKey m3 = Some (rt_toBase64 rt pubC)"
    by (simp add: run)
  show ?thesis
    using init r1 r2 r3 layouts macs wire replay_p replay_c by (intro conjI)
qed

theorem confirmation_mac_layouts_witness:
  "p_providerNonce demo_p0 \<noteq> c_consumerNonce demo_c0
   \<and> length (p_providerNonce demo_p0) = length (c_consumerNonce demo_c0)
   \<and> rt_hmac demo_rt
        (confirmationKey (KeySchedule (rt_hmac demo_rt) [15] (p_providerNonce demo_p0)
           (c_consumerNonce demo_c0)))
        (p_providerNonce demo_p0 @ c_consumerNonce demo_c0 @
         rt_getPublicKey demo_rt (p_ecdh demo_p0) @ rt_getPublicKey demo_rt (c_ecdh demo_c0)) \<noteq>
      rt_hmac demo_rt
        (confirmationKey (KeySchedule (rt_hmac demo_rt) [15] (p_providerNonce demo_p0)
           (c_consumerNonce demo_c0)))
        (c_consumerNonce demo_c0 @ p_providerNonce demo_p0 @
         rt_getPublicKey demo_rt (c_ecdh demo_c0) @ rt_getPublicKey demo_rt (p_ecdh demo_p0))
   \<and> pr_confirmationMac (fst (snd (snd (honest_run demo_rt demo_p0 demo_c0)))) =
       Some (rt_toBase64 demo_rt
         (rt_hmac demo_rt
            (confirmationKey (KeySchedule (rt_hmac demo_rt) [15] (p_providerNonce demo_p0)
               (c_consumerNonce demo_c0)))
            (p_providerNonce demo_p0 @ c_consumerNonce demo_c0 @
             rt_getPublicKey demo_rt (p_ecdh demo_p0) @
             rt_getPublicKey demo_rt (c_ecdh demo_c0))))
   \<and> handleMessage demo_rt demo_c1
        (RawObject (key_confirmation_request (Some (rt_toBase64 demo_rt
           (rt_hmac demo_rt
              (confirmationKey (KeySchedule (rt_hmac demo_rt) [15] (p_providerNonce demo_p0)
                 (c_consumerNonce demo_c0)))
              (c_consumerNonce demo_c0 @ p_providerNonce demo_p0 @
               rt_getPublicKey demo_rt (c_ecdh demo_c0) @
               rt_getPublicKey demo_rt (p_ecdh demo_p0))))))) =
       (demo_c1, consumer_error
                   (Error ''Provider key confirmation failed - potential MITM attack''))"
proof -
  let ?K = "confirmationKey (KeySchedule (rt_hmac demo_rt) [15] (p_providerNonce demo_p0)
              (c_consumerNonce demo_c0))"
  let ?dI = "p_providerNonce demo_p0 @ c_consumerNonce demo_c0 @
         rt_getPublicKey demo_rt (p_ecdh demo_p0) @ rt_getPublicKey demo_rt (c_ecdh demo_c0)"
  let ?dR = "c_consumerNonce demo_c0 @ p_providerNonce demo_p0 @
         rt_getPublicKey demo_rt (c_ecdh demo_c0) @ rt_getPublicKey demo_rt (p_ecdh demo_p0)"
  have n1: "p_providerNonce demo_p0 \<noteq> c_consumerNonce demo_c0"
    by (simp add: demo_p0_def demo_c0_def)
  have n2: "length (p_providerNonce demo_p0) = length (c_consumerNonce demo_c0)"
    by (simp add: demo_p0_def demo_c0_def)
  have ne: "?dI \<noteq> []" "?dR \<noteq> []"
    by (simp_all add: demo_p0_def demo_c0_def)
  have macs: "rt_hmac demo_rt ?K ?dI \<noteq> rt_hmac demo_rt ?K ?dR"
  proof
    assume "rt_hmac demo_rt ?K ?dI = rt_hmac demo_rt ?K ?dR"
    then have "demo_hmac ?K ?dI = demo_hmac ?K ?dR" by (simp only: demo_rt_fields)
    then have "hd ?dI = hd ?dR" by (rule demo_hmac_hd [OF ne])
    then show False by (simp add: demo_p0_def demo_c0_def)
  qed
  then have nocoll: "rt_hmac demo_rt ?K ?dI = rt_hmac demo_rt ?K ?dR \<longrightarrow> ?dI = ?dR"
    by (rule contrapos_np [THEN impI]) simp
  note w = confirmation_mac_layouts [OF demo_rt_base64 demo_rt_json demo_rt_ecdh n1 n2 nocoll]
  note w3 = w [THEN conjunct2, THEN conjunct2, THEN conjunct1]
  note w9 = w [THEN conjunct2, THEN conjunct2, THEN conjunct2, THEN conjunct2, THEN conjunct2,
    THEN conjunct2, THEN conjunct2, THEN conjunct2]
  show ?thesis
    unfolding demo_c1_def using n1 n2 macs w3 w9 by (intro conjI)
qed

section \<open>destroy\<close>

lemma fill0_replicate: "fill0 b = replicate (length b) 0"
  by (simp add: fill0_def map_replicate_const)

lemma fill0_idem: "fill0 (fill0 b) = fill0 b"
  by (simp add: fill0_def)

lemma map_option_fill0_idem: "map_option fill0 (map_option fill0 x) = map_option fill0 x"
  by (cases x) (simp_all add: fill0_idem)

text \<open>
  Claim C7, as the code has it. After \<open>destroy()\<close> on a SecureProvider or a
  SecureConsumer both nonces and the shared secret are zero-filled at their lengths, the
  three key buffers are zero-filled and the bundle is dropped, the confirmed flag is
  false and \<open>getDerivedKeys()\<close> returns null; a second \<open>destroy()\<close> leaves the same
  state and finds no bundle to wipe. No Failed state is recorded.
\<close>

theorem destroy_zeroizes:
  "p_providerNonce (fst (provider_destroy p)) = replicate (length (p_providerNonce p)) 0
   \<and> p_consumerNonce (fst (provider_destroy p)) =
       map_option (\<lambda>b. replicate (length b) 0) (p_consumerNonce p)
   \<and> p_sharedSecret (fst (provider_destroy p)) =
       map_option (\<lambda>b. replicate (length b) 0) (p_sharedSecret p)
   \<and> snd (provider_destroy p) =
       map_option (\<lambda>dk. \<lparr>encryptionKey = replicate (length (encryptionKey dk)) 0,
                           authenticationKey = replicate (length (authenticationKey dk)) 0,
                           confirmationKey = replicate (length (confirmationKey dk)) 0\<rparr>)
         (p_derivedKeys p)
   \<and> p_derivedKeys (fst (provider_destroy p)) = None
   \<and> p_confirmed (fst (provider_destroy p)) = False
   \<and> provider_getDerivedKeys (fst (provider_destroy p)) = None
   \<and> provider_destroy (fst (provider_destroy p)) = (fst (provider_destroy p), None)
   \<and> c_consumerNonce (fst (consumer_destroy c)) = replicate (length (c_consumerNonce c)) 0
   \<and> c_providerNonce (fst (consumer_destroy c)) =
       map_option (\<lambda>b. replicate (length b) 0) (c_providerNonce c)
   \<and> c_sharedSecret (fst (consumer_destroy c)) =
       map_option (\<lambda>b. replicate (length b) 0) (c_sharedSecret c)
   \<and> snd (consumer_destroy c) =
       map_option (\<lambda>dk. \<lparr>encryptionKey = replicate (length (encryptionKey dk)) 0,
                           authenticationKey = replicate (length (authenticationKey dk)) 0,
                           confirmationKey = replicate (length (confirmationKey dk)) 0\<rparr>)
         (c_derivedKeys c)
   \<and> c_derivedKeys (fst (consumer_destroy c)) = None
   \<and> c_confirmed (fst (consumer_destroy c)) = False
   \<and> consumer_getDerivedKeys (fst (consumer_destroy c)) = None
   \<and> consumer_destroy (fst (consumer_destroy c)) = (fst (consumer_destroy c), None)"
proof -
  have fo: "\<And>x. map_option fill0 x = map_option (\<lambda>b. replicate (length b) 0) x"
    by (simp add: fill0_replicate [abs_def])
  have fk: "\<And>x. map_option fill0_keys x =
       map_option (\<lambda>dk. \<lparr>encryptionKey = replicate (length (encryptionKey dk)) 0,
                           authenticationKey = replicate (length (authenticationKey dk)) 0,
                           confirmationKey = replicate (length (confirmationKey dk)) 0\<rparr>) x"
    by (simp add: fill0_keys_def [abs_def] fill0_replicate)
  have p: "provider_destroy p =
     (p\<lparr>p_sharedSecret := map_option fill0 (p_sharedSecret p), p_derivedKeys := None,
        p_providerNonce := fill0 (p_providerNonce p),
        p_consumerNonce := map_option fill0 (p_consumerNonce p), p_confirmed := False\<rparr>,
      map_option fill0_keys (p_derivedKeys p))"
    by (simp add: provider_destroy_def Let_def)
  have c: "consumer_destroy c =
     (c\<lparr>c_sharedSecret := map_option fill0 (c_sharedSecret c), c_derivedKeys := None,
        c_consumerNonce := fill0 (c_consumerNonce c),
        c_providerNonce := map_option fill0 (c_providerNonce c), c_confirmed := False\<rparr>,
      map_option fill0_keys (c_derivedKeys c))"
    by (simp add: consumer_destroy_def Let_def)
  have pp: "provider_destroy (fst (provider_destroy p)) = (fst (provider_destroy p), None)"
    by (simp add: p provider_destroy_def Let_def fill0_idem map_option_fill0_idem)
  have cc: "consumer_destroy (fst (consumer_destroy c)) = (fst (consumer_destroy c), None)"
    by (simp add: c consumer_destroy_def Let_def fill0_idem map_option_fill0_idem)
  show ?thesis
    unfolding pp cc
    by (simp add: p c fo fk fill0_replicate provider_getDerivedKeys_def
        consumer_getDerivedKeys_def)
qed

text \<open>
  The claim as stated fails: a destroyed consumer answers a handshake-init with a
  handshake-response, and a destroyed provider answers the handshake-response with its
  confirmation MAC.
\<close>

theorem destroy_counterexample:
  "cr_type (snd (handleMessage demo_rt (fst (consumer_destroy demo_c2))
      (RawString (startHandshake demo_rt demo_p0)))) = ''handshake-response''
   \<and> cr_error (snd (handleMessage demo_rt (fst (consumer_destroy demo_c2))
      (RawString (startHandshake demo_rt demo_p0)))) = None
   \<and> pr_type (snd (handleResponse demo_rt (fst (provider_destroy demo_p2))
      (deliver demo_m1))) = ''send-confirmation''
   \<and> pr_error (snd (handleResponse demo_rt (fst (provider_destroy demo_p2))
      (deliver demo_m1))) = None"
proof -
  have c: "c_ecdh (fst (consumer_destroy demo_c2)) = c_ecdh demo_c0"
    by (simp add: consumer_destroy_def Let_def demo_c2_value demo_c1_value)
  have p: "p_ecdh (fst (provider_destroy demo_p2)) = p_ecdh demo_p0"
    "p_sessionId (fst (provider_destroy demo_p2)) = p_sessionId demo_p0"
    by (simp_all add: provider_destroy_def Let_def demo_p2_value demo_p1_value)
  show ?thesis
    by (simp add: demo_init_any_consumer [OF c] demo_response_any_provider [OF p])
qed

section \<open>Decryption failures in the encryption plugin\<close>

lemma processIncomingMessage_never_throws:
  "\<exists>v. processIncomingMessage parse decrypt pl messageStr = Inr v"
  by (simp add: processIncomingMessage_def split: sum.splits)

lemma processIncomingMessage_swallows:
  assumes "parse messageStr = Some parsed"
    and "getProp parsed ''type'' = Inr (Some (JStr ''encrypted-plugin-message''))"
    and "getProp parsed ''encrypted'' = Inr (Some enc)" and "truthy (Some enc)"
    and "isEnabled pl" and "getProp parsed ''algorithm'' = Inr alg"
    and "(truthy alg \<and> alg \<noteq> Some (JStr (algorithmName pl))) \<or> decrypt enc = Inl e"
  shows "processIncomingMessage parse decrypt pl messageStr = Inr (JStr messageStr)"
  using assms
  by (auto simp: processIncomingMessage_def processIncoming_try_def split: sum.splits)

text \<open>
  Claim C8, as the code has it. For every input on which decryption of an
  ENCRYPTED_ENVELOPE fails (the envelope names another algorithm, or \<open>decrypt\<close> throws as
  on an AEAD tag mismatch), \<open>unwrapMessage\<close> reports the failure to its caller by
  returning null, and it never throws.
\<close>

theorem unwrapMessage_null_on_decrypt_failure:
  assumes "parse messageStr = Some parsed"
    and "getProp parsed ''type'' = Inr (Some (JStr ''encrypted-plugin-message''))"
    and "getProp parsed ''encrypted'' = Inr (Some enc)" and "truthy (Some enc)"
    and "isEnabled pl" and "getProp parsed ''algorithm'' = Inr alg"
    and "(truthy alg \<and> alg \<noteq> Some (JStr (algorithmName pl))) \<or> decrypt enc = Inl e"
  shows "unwrapMessage parse decrypt pl messageStr = Inr None
       \<and> (\<exists>r. unwrapMessage parse decrypt pl other = Inr r)"
proof
  show "unwrapMessage parse decrypt pl messageStr = Inr None"
    by (simp add: unwrapMessage_def
        processIncomingMessage_swallows [where parse = parse and messageStr = messageStr
          and decrypt = decrypt and e = e, OF assms])
  show "\<exists>r. unwrapMessage parse decrypt pl other = Inr r"
    by (auto simp: unwrapMessage_def split: sum.splits option.splits)
qed

lemma demo_envelope_props:
  "demo_parse ''demo-envelope'' = Some demo_envelope"
  "getProp demo_envelope ''type'' = Inr (Some (JStr ''encrypted-plugin-message''))"
  "getProp demo_envelope ''encrypted'' =
     Inr (Some (JObj [(''data'', JStr ''AAAA''),
                      (''metadata'', JObj [(''iv'', JStr ''AAAAAAAAAAAAAAAA''),
                                          (''tag'', JStr ''AAAAAAAAAAAAAAAAAAAAAA=='')])]))"
  "truthy (Some (JObj [(''data'', JStr ''AAAA''),
                       (''metadata'', JObj [(''iv'', JStr ''AAAAAAAAAAAAAAAA''),
                                           (''tag'', JStr ''AAAAAAAAAAAAAAAAAAAAAA=='')])]))"
  "isEnabled demo_plugin"
  "getProp demo_envelope ''algorithm'' = Inr (Some (JStr ''aes-256-gcm''))"
  by (simp_all add: demo_parse_def demo_envelope_def isEnabled_def demo_plugin_def)

lemma demo_decrypt_fails:
  "(truthy (Some (JStr ''aes-256-gcm'')) \<and>
    Some (JStr ''aes-256-gcm'') \<noteq> Some (JStr (algorithmName demo_plugin))) \<or>
   demo_decrypt (JObj [(''data'', JStr ''AAAA''),
                       (''metadata'', JObj [(''iv'', JStr ''AAAAAAAAAAAAAAAA''),
                                           (''tag'', JStr ''AAAAAAAAAAAAAAAAAAAAAA=='')])]) =
     Inl CryptoError"
  by (simp add: demo_decrypt_def)

theorem unwrapMessage_null_on_decrypt_failure_witness:
  "demo_parse ''demo-envelope'' = Some demo_envelope
   \<and> isEnabled demo_plugin
   \<and> demo_decrypt (JObj [(''data'', JStr ''AAAA''),
                       (''metadata'', JObj [(''iv'', JStr ''AAAAAAAAAAAAAAAA''),
                                           (''tag'', JStr ''AAAAAAAAAAAAAAAAAAAAAA=='')])]) =
       Inl CryptoError
   \<and> unwrapMessage demo_parse demo_decrypt demo_plugin ''demo-envelope'' = Inr None"
  using demo_envelope_props(1,5)
    unwrapMessage_null_on_decrypt_failure [where parse = demo_parse
      and messageStr = "''demo-envelope''" and decrypt = demo_decrypt and e = CryptoError,
      OF demo_envelope_props demo_decrypt_fails, THEN conjunct1]
  by (simp add: demo_decrypt_def)

text \<open>
  The claim as stated fails: on an envelope whose decryption throws,
  \<open>processIncomingMessage\<close> returns the raw message string and \<open>unwrapMessage\<close> returns
  null, and neither throws.
\<close>

theorem swallowed_error_counterexample:
  "processIncoming_try demo_parse demo_decrypt demo_plugin ''demo-envelope'' = Inl CryptoError
   \<and> processIncomingMessage demo_parse demo_decrypt demo_plugin ''demo-envelope'' =
       Inr (JStr ''demo-envelope'')
   \<and> unwrapMessage demo_parse demo_decrypt demo_plugin ''demo-envelope'' = Inr None"
  by (simp add: unwrapMessage_def processIncomingMessage_def processIncoming_try_def
      demo_parse_def demo_envelope_def demo_decrypt_def demo_plugin_def isEnabled_def)

text \<open>
  Claim C9. \<open>HKDF.derive\<close> throws the length-too-large error exactly when the requested
  length exceeds \<open>255 * 32 = 8160\<close> and otherwise returns the RFC 5869 output, the first
  \<open>L\<close> bytes of \<open>T(1) || ... || T(ceil(L/32))\<close> with
  \<open>T(i) = HMAC(PRK, T(i-1) || info || byte(i))\<close> and \<open>PRK = HMAC(salt, IKM)\<close>. In
  particular length 8161 throws, and length 8160 returns exactly 8160 bytes, HMAC-SHA-256
  tags being 32 bytes long.
\<close>

theorem HKDF_derive_length_limit:
  assumes "\<forall>key data. length (hmac key data) = 32"
  shows "HKDF_derive hmac ikm salt info L =
           (if 8160 < L then Inl (Error ''HKDF: requested length too large'')
            else Inr (rfc5869_okm hmac (hmac salt ikm) info (nat ((L + 31) div 32)) (nat L)))
         \<and> HKDF_derive hmac ikm salt info 8161 = Inl (Error ''HKDF: requested length too large'')
         \<and> HKDF_derive hmac ikm salt info 8160 = Inr (rfc5869_okm hmac (hmac salt ikm) info 255 8160)
         \<and> length (rfc5869_okm hmac (hmac salt ikm) info 255 8160) = 8160"
proof -
  have eq: "\<And>L. HKDF_derive hmac ikm salt info L =
           (if 8160 < L then Inl (Error ''HKDF: requested length too large'')
            else Inr (rfc5869_okm hmac (hmac salt ikm) info (nat ((L + 31) div 32)) (nat L)))"
    by (simp only: HKDF_derive_def HKDF_extract_def Let_def HKDF_expand_rfc5869)
  have len: "length (rfc5869_okm hmac (hmac salt ikm) info 255 8160) = 8160"
    using assms by (rule length_rfc5869_okm) simp
  show ?thesis using eq [of L] eq [of 8161] eq [of 8160] len by simp
qed

theorem HKDF_derive_length_limit_witness:
  "(\<forall>key data. length (demo_hmac key data) = 32)
   \<and> HKDF_derive demo_hmac [1] [2] [3] 8161 = Inl (Error ''HKDF: requested length too large'')
   \<and> HKDF_derive demo_hmac [1] [2] [3] 8160 =
       Inr (rfc5869_okm demo_hmac (demo_hmac [2] [1]) [3] 255 8160)
   \<and> length (rfc5869_okm demo_hmac (demo_hmac [2] [1]) [3] 255 8160) = 8160"
proof -
  have h: "\<forall>key data. length (demo_hmac key data) = 32"
    by (simp add: length_demo_hmac)
  show ?thesis using h HKDF_derive_length_limit [OF h, of "[1]" "[2]" "[3]" 0] by simp
qed

section \<open>SecureRandom on length zero\<close>

text \<open>
  Claim C10. A call of \<open>SecureRandom.bytes\<close> or \<open>SecureRandom.base64\<close> with length 0
  throws the insufficient-entropy error whatever the generator does: the buffer it
  returns for length 0 is empty, and the all-zeros test holds of the empty buffer.
\<close>

theorem SecureRandom_zero_length_throws:
  assumes "length (randomBytes 0) = 0"
  shows "SecureRandom_bytes randomBytes 0 =
           Inl (Error ''Insufficient entropy detected in random generation'')
         \<and> SecureRandom_base64 toBase64 randomBytes 0 =
           Inl (Error ''Insufficient entropy detected in random generation'')"
  using assms by (simp add: SecureRandom_bytes_def SecureRandom_base64_def)

theorem SecureRandom_zero_length_throws_witness:
  "length ((\<lambda>n. replicate n (7 :: 8 word)) 0) = 0
   \<and> SecureRandom_bytes (\<lambda>n. replicate n 7) 0 =
       Inl (Error ''Insufficient entropy detected in random generation'')
   \<and> SecureRandom_base64 demo_toBase64 (\<lambda>n. replicate n 7) 0 =
       Inl (Error ''Insufficient entropy detected in random generation'')"
proof -
  have h: "length ((\<lambda>n. replicate n (7 :: 8 word)) 0) = 0" by simp
  show ?thesis
    using h SecureRandom_zero_length_throws [of "\<lambda>n. replicate n 7" demo_toBase64, OF h]
    by simp
qed

end
